theory Spec2Isabelle
  imports Main
begin

section \<open>JavaScript values and helpers of \<^verbatim>\<open>getOptions.js\<close>\<close>

text \<open>
  The flag object is the one \<^verbatim>\<open>parseArgs\<close> builds: a flag declared
  \<^verbatim>\<open>type: 'string'\<close> is \<open>undefined\<close> or a string, a flag declared
  \<^verbatim>\<open>type: 'boolean'\<close> is \<open>undefined\<close> or a boolean
  (\<^verbatim>\<open>booleanDefault: undefined\<close>), and a flag declared \<^verbatim>\<open>isMultiple\<close> is
  \<open>undefined\<close>, one string or an array of strings (the helpers \<^verbatim>\<open>takeLast\<close>
  and \<^verbatim>\<open>ensureArray\<close> accept both). \<open>None\<close> stands for \<open>undefined\<close>
  (and for \<open>null\<close>, which the code never tells apart from it).
\<close>

datatype strs = Single string | Multiple "string list"

text \<open>The value of an option after \<^verbatim>\<open>trueIfSet\<close>: \<open>true\<close> or a string.\<close>

datatype flagval = FlagTrue | FlagStr string

text \<open>JavaScript truthiness, per type: the empty string, \<open>false\<close> and
  \<open>undefined\<close> are falsy; every array is truthy.\<close>

fun truthy_str :: "string option \<Rightarrow> bool" where
  "truthy_str None = False"
| "truthy_str (Some s) = (s \<noteq> [])"

fun truthy_bool :: "bool option \<Rightarrow> bool" where
  "truthy_bool None = False"
| "truthy_bool (Some b) = b"

fun truthy_strs :: "strs option \<Rightarrow> bool" where
  "truthy_strs None = False"
| "truthy_strs (Some (Single s)) = (s \<noteq> [])"
| "truthy_strs (Some (Multiple xs)) = True"

fun truthy_flagval :: "flagval option \<Rightarrow> bool" where
  "truthy_flagval None = False"
| "truthy_flagval (Some FlagTrue) = True"
| "truthy_flagval (Some (FlagStr s)) = (s \<noteq> [])"

text \<open>\<^verbatim>\<open>const takeLast = (input) => (Array.isArray(input) ? input[input.length - 1] : input);\<close>
  Indexing an empty array at \<open>-1\<close> gives \<open>undefined\<close>.\<close>

fun takeLast :: "strs option \<Rightarrow> string option" where
  "takeLast None = None"
| "takeLast (Some (Single s)) = Some s"
| "takeLast (Some (Multiple xs)) = (if xs = [] then None else Some (last xs))"

text \<open>\<^verbatim>\<open>const ensureArray = (input) => (Array.isArray(input) ? input : [input]);\<close>\<close>

fun ensureArray :: "strs option \<Rightarrow> string option list" where
  "ensureArray None = [None]"
| "ensureArray (Some (Single s)) = [Some s]"
| "ensureArray (Some (Multiple xs)) = map Some xs"

text \<open>\<^verbatim>\<open>const trueIfSet = (value) => (value === '' ? true : value);\<close>\<close>

fun trueIfSet :: "string option \<Rightarrow> flagval option" where
  "trueIfSet None = None"
| "trueIfSet (Some s) = (if s = [] then Some FlagTrue else Some (FlagStr s))"

text \<open>\<^verbatim>\<open>undefinedIfEmpty\<close>: \<^verbatim>\<open>array.filter(Boolean)\<close> keeps the non-empty
  strings; an empty result becomes \<open>undefined\<close>.\<close>

definition undefinedIfEmpty :: "string option list \<Rightarrow> string list option" where
  "undefinedIfEmpty array =
     (let filtered = concat (map (\<lambda>v. case v of None \<Rightarrow> [] | Some s \<Rightarrow> if s = [] then [] else [s]) array)
      in if filtered \<noteq> [] then Some filtered else None)"

text \<open>\<^verbatim>\<open>String.prototype.split\<close> with a non-empty string separator: the pieces
  between the successive occurrences of the separator, found from the left. \<open>cur\<close> is
  the piece being read.\<close>

fun split_from :: "string \<Rightarrow> string \<Rightarrow> string \<Rightarrow> string list" where
  "split_from sep cur [] = [cur]"
| "split_from sep cur (c # cs) =
     (if sep \<noteq> [] \<and> take (length sep) (c # cs) = sep
      then cur # split_from sep [] (drop (length sep - 1) cs)
      else split_from sep (cur @ [c]) cs)"

definition split :: "string \<Rightarrow> string \<Rightarrow> string list" where
  "split sep s = split_from sep [] s"

text \<open>\<^verbatim>\<open>startsWith\<close> and \<^verbatim>\<open>endsWith\<close>.\<close>

definition startsWith :: "string \<Rightarrow> string \<Rightarrow> bool" where
  "startsWith s p = (take (length p) s = p)"

definition endsWith :: "string \<Rightarrow> string \<Rightarrow> bool" where
  "endsWith s p = (length p \<le> length s \<and> drop (length s - length p) s = p)"

text \<open>The regular expression \<^verbatim>\<open>/[\w*]\/[\w*]/\<close>: somewhere in the string, a
  slash between two characters that are each a word character (\<open>A-Z\<close>, \<open>a-z\<close>,
  \<open>0-9\<close>, \<open>_\<close>) or a star. The expression is not anchored.\<close>

definition word_or_star :: "char \<Rightarrow> bool" where
  "word_or_star c =
     (let n = of_char c :: nat in
      (65 \<le> n \<and> n \<le> 90) \<or> (97 \<le> n \<and> n \<le> 122) \<or> (48 \<le> n \<and> n \<le> 57) \<or> n = 95 \<or> n = 42)"

fun only_regexp_test :: "string \<Rightarrow> bool" where
  "only_regexp_test (a # b # c # rest) =
     ((word_or_star a \<and> b = CHR ''/'' \<and> word_or_star c) \<or> only_regexp_test (b # c # rest))"
| "only_regexp_test _ = False"

text \<open>Array destructuring \<^verbatim>\<open>const [a, b] = array\<close>: a missing element is
  \<open>undefined\<close>.\<close>

fun nth_opt :: "'a list \<Rightarrow> nat \<Rightarrow> 'a option" where
  "nth_opt [] n = None"
| "nth_opt (x # xs) 0 = Some x"
| "nth_opt (x # xs) (Suc n) = nth_opt xs n"

text \<open>\<^verbatim>\<open>value || ''\<close> on a string flag.\<close>

fun or_empty :: "string option \<Rightarrow> string" where
  "or_empty None = []"
| "or_empty (Some s) = s"

text \<open>A value inside a template literal.\<close>

fun template :: "string option \<Rightarrow> string" where
  "template None = ''undefined''"
| "template (Some s) = s"

section \<open>Data model\<close>

text \<open>The flags \<^verbatim>\<open>parseArgs\<close> declares, with the types it declares.\<close>

record flags =
  flag_projectToken :: "strs option"
  flag_appCode :: "strs option"
  flag_buildScriptName :: "string option"
  flag_outputDir :: "strs option"
  flag_storybookBuildDir :: "strs option"
  flag_allowConsoleErrors :: "bool option"
  flag_autoAcceptChanges :: "string option"
  flag_exitOnceUploaded :: "string option"
  flag_exitZeroOnChanges :: "string option"
  flag_ignoreLastBuildOnBranch :: "string option"
  flag_only :: "string option"
  flag_onlyChanged :: "string option"
  flag_untraced :: "strs option"
  flag_externals :: "strs option"
  flag_branchName :: "string option"
  flag_patchBuild :: "string option"
  flag_preserveMissing :: "bool option"
  flag_skip :: "string option"
  flag_storybookBaseDir :: "string option"
  flag_zip :: "bool option"
  flag_ci :: "bool option"
  flag_debug :: "bool option"
  flag_diagnostics :: "bool option"
  flag_dryRun :: "bool option"
  flag_junitReport :: "string option"
  flag_list :: "bool option"
  flag_interactive :: "bool option"
  flag_doNotStart :: "bool option"
  flag_exec :: "string option"
  flag_scriptName :: "string option"
  flag_storybookPort :: "string option"
  flag_storybookUrl :: "string option"
  flag_storybookHttps :: "bool option"
  flag_storybookCert :: "string option"
  flag_storybookKey :: "string option"
  flag_storybookCa :: "string option"

text \<open>The manifest: \<^verbatim>\<open>packageJson.scripts\<close> may be missing. The table is the
  list of its own entries in the order \<^verbatim>\<open>Object.entries\<close> gives them.\<close>

record packageJson =
  scripts :: "(string \<times> string) list option"

text \<open>A lookup \<^verbatim>\<open>scripts[name]\<close> gives the command of an own entry; else, for a
  name that every object inherits from \<^verbatim>\<open>Object.prototype\<close>, the inherited
  member, which is a function or an object, so truthy and not a string; else
  \<open>undefined\<close>.\<close>

datatype script_value = NoScript | Command string | Inherited string

definition object_prototype_members :: "string list" where
  "object_prototype_members =
     [''constructor'', ''__defineGetter__'', ''__defineSetter__'', ''hasOwnProperty'',
      ''__lookupGetter__'', ''__lookupSetter__'', ''isPrototypeOf'', ''propertyIsEnumerable'',
      ''toString'', ''valueOf'', ''__proto__'', ''toLocaleString'']"

definition script_at :: "(string \<times> string) list \<Rightarrow> string \<Rightarrow> script_value" where
  "script_at scr name =
     (case map_of scr name of
        Some v \<Rightarrow> Command v
      | None \<Rightarrow> if name \<in> set object_prototype_members then Inherited name else NoScript)"

fun truthy_script :: "script_value \<Rightarrow> bool" where
  "truthy_script NoScript = False"
| "truthy_script (Command v) = (v \<noteq> [])"
| "truthy_script (Inherited name) = True"

text \<open>The argument of \<^verbatim>\<open>getOptions\<close>. \<open>log\<close> says whether a logger was
  passed; what the logger prints is not modelled, since nothing reads it back.\<close>

record input =
  argv :: "string list"
  env :: "string \<rightharpoonup> string"
  flags :: flags
  log :: bool
  packageJson :: packageJson

text \<open>The global \<^verbatim>\<open>process\<close>: its environment and whether standard output
  is a terminal.\<close>

record process =
  process_env :: "string \<rightharpoonup> string"
  stdout_isTTY :: bool

text \<open>The value of \<^verbatim>\<open>https\<close>: the raw flag, a falsy value read from the start
  script, or the bundle \<^verbatim>\<open>{cert, key, ca}\<close>.\<close>

datatype https_value =
  HttpsFlag "bool option"
| HttpsScript "string option"
| HttpsCredentials "string option" "string option" "string option"

fun truthy_https :: "https_value \<Rightarrow> bool" where
  "truthy_https (HttpsFlag b) = truthy_bool b"
| "truthy_https (HttpsScript v) = truthy_str v"
| "truthy_https (HttpsCredentials c k a) = True"

text \<open>The object \<^verbatim>\<open>options\<close>, and the objects \<^verbatim>\<open>getOptions\<close> returns, which
  spread it: \<open>useTunnel\<close> and \<open>url\<close> are \<open>undefined\<close> until a return sets
  them.\<close>

record options =
  projectToken :: "string option"
  only :: "string option"
  onlyChanged :: "flagval option"
  untraced :: "string list option"
  externals :: "string list option"
  list_opt :: "bool option"
  fromCI :: bool
  skip :: "flagval option"
  dryRun :: bool
  verbose :: bool
  interactive :: bool
  junitReport :: "flagval option"
  zip_opt :: "bool option"
  autoAcceptChanges :: "flagval option"
  exitZeroOnChanges :: "flagval option"
  exitOnceUploaded :: "flagval option"
  ignoreLastBuildOnBranch :: "string option"
  preserveMissingSpecs :: bool
  originalArgv :: "string list"
  buildScriptName :: "string option"
  outputDir :: "string option"
  allowConsoleErrors :: "bool option"
  scriptName :: "flagval option"
  exec :: "string option"
  noStart :: bool
  https :: https_value
  cert :: "string option"
  key :: "string option"
  ca :: "string option"
  port :: "string option"
  storybookBuildDir :: "string option"
  storybookBaseDir :: "string option"
  storybookUrl :: "string option"
  createTunnel :: bool
  ownerName :: "string option"
  branchName :: "string option"
  patchHeadRef :: "string option"
  patchBaseRef :: "string option"
  useTunnel :: "bool option"
  url :: "string option"

text \<open>What the two functions throw: one constructor for each message function,
  with its arguments, \<open>TypeError\<close> for the errors the runtime raises
  (a property read on \<open>undefined\<close> or \<open>null\<close>, a non-string path argument, a
  URL the parser rejects), and \<open>GitError\<close> for a git query whose promise is
  rejected and not caught.\<close>

datatype error =
  MissingProjectToken
| InvalidPatchBuild
| DuplicatePatchBuild
| InvalidOnly
| InvalidSingularOptions "string list"
| DependentOption string string
| InvalidExitOnceUploaded
| IncompatibleOptions "string list"
| InvalidReportPath
| MissingBuildScriptName string
| InvalidOnlyChanged
| MissingStorybookPort
| MissingScriptName string
| UnknownStorybookPort string
| TypeError
| GitOneCommit bool
| MissingTravisInfo string
| MissingGitHubInfo string
| ForksUnsupported string
| GitError

section \<open>The imported modules\<close>

text \<open>
  What \<^verbatim>\<open>url.parse\<close> returns, as far as \<^verbatim>\<open>getOptions\<close> and
  \<^verbatim>\<open>format\<close> read it: the protocol with its colon, whether \<^verbatim>\<open>format\<close>
  writes \<open>//\<close> before the host, the host (with credentials and port), the
  path name (\<open>null\<close> when the URL has none), the query with its \<open>?\<close> and the
  fragment with its \<open>#\<close> (empty when absent).
\<close>

record parsed_url =
  protocol :: string
  slashes :: bool
  host :: string
  pathname :: "string option"
  search :: string
  hash :: string

text \<open>\<^verbatim>\<open>Url.prototype.format\<close>: protocol, host, path name, query and fragment
  in this order. In the path name \<open>#\<close> and \<open>?\<close> are percent-encoded, and a path
  name after a host starts with a slash.\<close>

definition escape_pathname :: "string \<Rightarrow> string" where
  "escape_pathname p =
     concat (map (\<lambda>c. if c = CHR ''#'' then ''%23'' else if c = CHR ''?'' then ''%3F'' else [c]) p)"

definition format :: "parsed_url \<Rightarrow> string" where
  "format u =
     (let p = escape_pathname (or_empty (pathname u));
          p' = (if slashes u \<and> p \<noteq> [] \<and> hd p \<noteq> CHR ''/'' then CHR ''/'' # p else p)
      in protocol u @ (if slashes u then ''//'' else []) @ host u @ p' @ search u @ hash u)"

text \<open>
  The functions \<^verbatim>\<open>getOptions.js\<close> imports: \<^verbatim>\<open>path.extname\<close>,
  \<^verbatim>\<open>path.join\<close> and \<^verbatim>\<open>url.parse\<close> of the runtime (\<open>None\<close>: the parser
  throws), and \<^verbatim>\<open>getStorybookConfiguration(script, shortName, longName)\<close>:
  what it returns for a command, and what it does when the script it is given is
  not a command but the member of that name inherited from
  \<^verbatim>\<open>Object.prototype\<close> (\<open>None\<close>: it throws).
  \<^verbatim>\<open>getOptions\<close> is modelled for any such functions.
\<close>

record deps =
  path_extname :: "string \<Rightarrow> string"
  path_join :: "string \<Rightarrow> string \<Rightarrow> string"
  url_parse :: "string \<Rightarrow> parsed_url option"
  getStorybookConfiguration :: "string \<Rightarrow> string \<Rightarrow> string option \<Rightarrow> string option"
  getStorybookConfiguration_inherited ::
    "string \<Rightarrow> string \<Rightarrow> string option \<Rightarrow> string option option"

section \<open>\<^verbatim>\<open>getOptions\<close>\<close>

text \<open>\<^verbatim>\<open>resolveHomeDir\<close>: \<^verbatim>\<open>path.join\<close> throws when
  \<^verbatim>\<open>process.env.HOME\<close> is not a string.\<close>

definition resolveHomeDir :: "deps \<Rightarrow> process \<Rightarrow> string option \<Rightarrow> error + string option" where
  "resolveHomeDir d pr filepath =
     (case filepath of
        None \<Rightarrow> Inr None
      | Some fp \<Rightarrow>
          if fp \<noteq> [] \<and> startsWith fp ''~''
          then (case process_env pr ''HOME'' of
                  None \<Rightarrow> Inl TypeError
                | Some home \<Rightarrow> Inr (Some (path_join d home (drop 1 fp))))
          else Inr (Some fp))"

text \<open>Lines 34 to 81: the constants \<^verbatim>\<open>fromCI\<close>, \<^verbatim>\<open>patchHeadRef\<close>,
  \<^verbatim>\<open>patchBaseRef\<close>, \<^verbatim>\<open>branchName\<close>, \<^verbatim>\<open>ownerName\<close> and the object
  \<^verbatim>\<open>options\<close>.\<close>

definition initial_options :: "process \<Rightarrow> input \<Rightarrow> options" where
  "initial_options pr inp =
     (let fl = flags inp;
          fromCI' = (truthy_bool (flag_ci fl) \<or> truthy_str (process_env pr ''CI''));
          patch = filter (\<lambda>s. s \<noteq> []) (split ''...'' (or_empty (flag_patchBuild fl)));
          branch = rev (split '':'' (or_empty (flag_branchName fl)))
      in \<lparr> projectToken =
             (let t = takeLast (if truthy_strs (flag_projectToken fl) then flag_projectToken fl
                                else flag_appCode fl)
              in if truthy_str t then t else env inp ''CHROMATIC_PROJECT_TOKEN''),
           only = flag_only fl,
           onlyChanged = trueIfSet (flag_onlyChanged fl),
           untraced = undefinedIfEmpty (ensureArray (flag_untraced fl)),
           externals = undefinedIfEmpty (ensureArray (flag_externals fl)),
           list_opt = flag_list fl,
           fromCI = fromCI',
           skip = trueIfSet (flag_skip fl),
           dryRun = truthy_bool (flag_dryRun fl),
           verbose = truthy_bool (flag_debug fl),
           interactive = (\<not> truthy_bool (flag_debug fl) \<and> \<not> fromCI' \<and>
                          truthy_bool (flag_interactive fl) \<and> stdout_isTTY pr),
           junitReport = trueIfSet (flag_junitReport fl),
           zip_opt = flag_zip fl,
           autoAcceptChanges = trueIfSet (flag_autoAcceptChanges fl),
           exitZeroOnChanges = trueIfSet (flag_exitZeroOnChanges fl),
           exitOnceUploaded = trueIfSet (flag_exitOnceUploaded fl),
           ignoreLastBuildOnBranch = flag_ignoreLastBuildOnBranch fl,
           preserveMissingSpecs = (truthy_bool (flag_preserveMissing fl) \<or> truthy_str (flag_only fl)),
           originalArgv = argv inp,
           buildScriptName = flag_buildScriptName fl,
           outputDir = takeLast (flag_outputDir fl),
           allowConsoleErrors = flag_allowConsoleErrors fl,
           scriptName = trueIfSet (flag_scriptName fl),
           exec = flag_exec fl,
           noStart = truthy_bool (flag_doNotStart fl),
           https = HttpsFlag (flag_storybookHttps fl),
           cert = flag_storybookCert fl,
           key = flag_storybookKey fl,
           ca = flag_storybookCa fl,
           port = flag_storybookPort fl,
           storybookBuildDir = takeLast (flag_storybookBuildDir fl),
           storybookBaseDir = flag_storybookBaseDir fl,
           storybookUrl = flag_storybookUrl fl,
           createTunnel = (\<not> truthy_str (flag_storybookUrl fl) \<and>
                           env inp ''CHROMATIC_CREATE_TUNNEL'' \<noteq> Some ''false''),
           ownerName = nth_opt branch 1,
           branchName = nth_opt branch 0,
           patchHeadRef = nth_opt patch 0,
           patchBaseRef = nth_opt patch 1,
           useTunnel = None,
           url = None \<rparr>)"

text \<open>Lines 113 to 121: the table \<^verbatim>\<open>singularOpts\<close> in the order of its keys,
  \<^verbatim>\<open>!!options[name]\<close> for its five keys, and \<^verbatim>\<open>foundSingularOpts\<close>.\<close>

definition singularOpts :: "(string \<times> string) list" where
  "singularOpts =
     [(''buildScriptName'', ''--build-script-name''),
      (''scriptName'', ''--script-name''),
      (''exec'', ''--exec''),
      (''storybookUrl'', ''--storybook-url''),
      (''storybookBuildDir'', ''--storybook-build-dir'')]"

definition option_set :: "options \<Rightarrow> string \<Rightarrow> bool" where
  "option_set opts name =
     (if name = ''buildScriptName'' then truthy_str (buildScriptName opts)
      else if name = ''scriptName'' then truthy_flagval (scriptName opts)
      else if name = ''exec'' then truthy_str (exec opts)
      else if name = ''storybookUrl'' then truthy_str (storybookUrl opts)
      else if name = ''storybookBuildDir'' then truthy_str (storybookBuildDir opts)
      else False)"

definition foundSingularOpts :: "options \<Rightarrow> string list" where
  "foundSingularOpts opts = filter (option_set opts) (map fst singularOpts)"

text \<open>For stating what the error of line 124 names: the command-line names of the
  five options that are set (truthy in \<^verbatim>\<open>options\<close>), in the order of the
  table.\<close>

definition set_selector_flags :: "options \<Rightarrow> string list" where
  "set_selector_flags opts =
     (if truthy_str (buildScriptName opts) then [''--build-script-name''] else []) @
     (if truthy_flagval (scriptName opts) then [''--script-name''] else []) @
     (if truthy_str (exec opts) then [''--exec''] else []) @
     (if truthy_str (storybookUrl opts) then [''--storybook-url''] else []) @
     (if truthy_str (storybookBuildDir opts) then [''--storybook-build-dir''] else [])"

text \<open>The value of \<^verbatim>\<open>https\<close> at line 107 and of \<^verbatim>\<open>noStart\<close> after
  line 142.\<close>

definition https_of_flags :: "options \<Rightarrow> https_value" where
  "https_of_flags opts =
     (if truthy_https (https opts) then HttpsCredentials (cert opts) (key opts) (ca opts)
      else https opts)"

definition noStart_of :: "options \<Rightarrow> bool" where
  "noStart_of opts = (if truthy_str (storybookUrl opts) then True else noStart opts)"

text \<open>Lines 83 to 158: the checks before a run mode is chosen, in the order of the
  source; the result is the first error thrown, if any. \<^verbatim>\<open>log.setLevel\<close> is
  called on the logger without a test, so \<^verbatim>\<open>--debug\<close> without a logger is a
  \<open>TypeError\<close>.\<close>

definition validation :: "deps \<Rightarrow> input \<Rightarrow> options \<Rightarrow> error option" where
  "validation d inp opts =
     (if truthy_bool (flag_debug (flags inp)) \<and> \<not> log inp then Some TypeError
      else if \<not> truthy_str (projectToken opts) then Some MissingProjectToken
      else if truthy_str (flag_patchBuild (flags inp)) \<and>
              (\<not> truthy_str (patchHeadRef opts) \<or> \<not> truthy_str (patchBaseRef opts))
        then Some InvalidPatchBuild
      else if truthy_str (flag_patchBuild (flags inp)) \<and> patchHeadRef opts = patchBaseRef opts
        then Some DuplicatePatchBuild
      else if truthy_str (flag_only (flags inp)) \<and> \<not> only_regexp_test (or_empty (flag_only (flags inp)))
        then Some InvalidOnly
      else if length (foundSingularOpts opts) > 1
        then Some (InvalidSingularOptions
                     (map (\<lambda>key. template (map_of singularOpts key)) (foundSingularOpts opts)))
      else if truthy_str (only opts) \<and> truthy_flagval (onlyChanged opts)
        then Some (InvalidSingularOptions [''--only'', ''--only-changed''])
      else if untraced opts \<noteq> None \<and> \<not> truthy_flagval (onlyChanged opts)
        then Some (DependentOption ''--untraced'' ''--only-changed'')
      else if externals opts \<noteq> None \<and> \<not> truthy_flagval (onlyChanged opts)
        then Some (DependentOption ''--externals'' ''--only-changed'')
      else if noStart_of opts \<and> truthy_flagval (exitOnceUploaded opts)
        then Some InvalidExitOnceUploaded
      else if truthy_flagval (scriptName opts) \<and> truthy_flagval (exitOnceUploaded opts)
        then Some InvalidExitOnceUploaded
      else if truthy_flagval (junitReport opts) \<and> truthy_flagval (exitOnceUploaded opts)
        then Some (IncompatibleOptions [''--junit-report'', ''--exit-once-uploaded''])
      else if (case junitReport opts of
                 Some (FlagStr s) \<Rightarrow> path_extname d s \<noteq> ''.xml''
               | _ \<Rightarrow> False)
        then Some InvalidReportPath
      else None)"

text \<open>Lines 162 to 176, the body of the branch that builds Storybook. Reading
  \<^verbatim>\<open>scripts[buildScriptName]\<close> at line 168 throws when the manifest has no
  script table; line 173 tests the table first.\<close>

definition inferBuildScriptName :: "(string \<times> string) list \<Rightarrow> string" where
  "inferBuildScriptName scr =
     (if \<not> truthy_script (script_at scr ''build-storybook'')
      then (case find (\<lambda>(k, v). startsWith v ''build-storybook'') scr of
              Some (k, v) \<Rightarrow> if k \<noteq> [] then k else ''build-storybook''
            | None \<Rightarrow> ''build-storybook'')
      else ''build-storybook'')"

definition buildStorybook :: "input \<Rightarrow> options \<Rightarrow> error + options" where
  "buildStorybook inp opts =
     (if truthy_str (storybookBuildDir opts)
      then Inr (opts\<lparr>noStart := True, useTunnel := Some False\<rparr>)
      else
        (case (scripts (packageJson inp), buildScriptName opts) of
           (None, None) \<Rightarrow> Inl TypeError
         | (None, Some b) \<Rightarrow> Inl (MissingBuildScriptName b)
         | (Some scr, given) \<Rightarrow>
             (let b = (case given of Some b \<Rightarrow> b | None \<Rightarrow> inferBuildScriptName scr)
              in if b \<noteq> [] \<and> truthy_script (script_at scr b)
                 then Inr (opts\<lparr>noStart := True, useTunnel := Some False, buildScriptName := Some b\<rparr>)
                 else Inl (MissingBuildScriptName b))))"

text \<open>Lines 197 to 208: \<^verbatim>\<open>https\<close> and \<^verbatim>\<open>port\<close> are read from the start
  script, in the order of the source. \<open>conf\<close> is
  \<^verbatim>\<open>getStorybookConfiguration\<close> applied to the script: it gives a value or
  throws.\<close>

definition readPath ::
  "deps \<Rightarrow> process \<Rightarrow> (string \<Rightarrow> string option \<Rightarrow> error + string option) \<Rightarrow> string \<Rightarrow>
   error + string option" where
  "readPath d pr conf flag =
     (case conf flag None of
        Inl e \<Rightarrow> Inl e
      | Inr v \<Rightarrow> resolveHomeDir d pr v)"

definition readHttps ::
  "deps \<Rightarrow> process \<Rightarrow> (string \<Rightarrow> string option \<Rightarrow> error + string option) \<Rightarrow> error + https_value" where
  "readHttps d pr conf =
     (case conf ''--https'' None of
        Inl e \<Rightarrow> Inl e
      | Inr h \<Rightarrow>
          if truthy_str h
          then (case readPath d pr conf ''--ssl-cert'' of
                  Inl e \<Rightarrow> Inl e
                | Inr c \<Rightarrow>
              (case readPath d pr conf ''--ssl-key'' of
                  Inl e \<Rightarrow> Inl e
                | Inr k \<Rightarrow>
              (case readPath d pr conf ''--ssl-ca'' of
                  Inl e \<Rightarrow> Inl e
                | Inr a \<Rightarrow> Inr (HttpsCredentials c k a))))
          else Inr (HttpsScript h))"

definition readScript ::
  "deps \<Rightarrow> process \<Rightarrow> options \<Rightarrow> string \<Rightarrow> (string \<Rightarrow> string option \<Rightarrow> error + string option) \<Rightarrow>
   error + (string \<times> https_value \<times> string)" where
  "readScript d pr opts name conf =
     (case (if truthy_https (https_of_flags opts) then Inr (https_of_flags opts)
            else readHttps d pr conf) of
        Inl e \<Rightarrow> Inl e
      | Inr https' \<Rightarrow>
          (case (if truthy_str (port opts) then Inr (port opts)
                 else conf ''-p'' (Some ''--port'')) of
             Inl e \<Rightarrow> Inl e
           | Inr None \<Rightarrow> Inl (UnknownStorybookPort name)
           | Inr (Some p) \<Rightarrow>
               if p = [] then Inl (UnknownStorybookPort name)
               else Inr (name, https', p)))"

text \<open>Lines 188 to 211: the start script is looked up, and \<^verbatim>\<open>https\<close> and
  \<^verbatim>\<open>port\<close> are read from it. The result is the new
  \<^verbatim>\<open>scriptName\<close>, \<^verbatim>\<open>https\<close> and \<^verbatim>\<open>port\<close>.\<close>

definition lookupScript ::
  "deps \<Rightarrow> process \<Rightarrow> input \<Rightarrow> options \<Rightarrow> error + (string \<times> https_value \<times> string)" where
  "lookupScript d pr inp opts =
     (let name = (case scriptName opts of Some (FlagStr s) \<Rightarrow> s | _ \<Rightarrow> ''storybook'');
          storybookScript = (case scripts (packageJson inp) of
                               None \<Rightarrow> NoScript
                             | Some scr \<Rightarrow> script_at scr name)
      in case storybookScript of
           NoScript \<Rightarrow> Inl (MissingScriptName name)
         | Command script \<Rightarrow>
             if script = [] then Inl (MissingScriptName name)
             else readScript d pr opts name
                    (\<lambda>shortName longName. Inr (getStorybookConfiguration d script shortName longName))
         | Inherited member \<Rightarrow>
             readScript d pr opts name
               (\<lambda>shortName longName.
                   case getStorybookConfiguration_inherited d member shortName longName of
                     None \<Rightarrow> Inl TypeError
                   | Some v \<Rightarrow> Inr v))"

text \<open>Lines 216 to 232: the suffix is appended to the path name of the parsed URL,
  and the result is returned. Reading \<^verbatim>\<open>endsWith\<close> on a \<open>null\<close> path name
  throws.\<close>

definition suffix :: string where
  "suffix = ''iframe.html''"

definition withSuffix :: "string \<Rightarrow> string" where
  "withSuffix p =
     (if \<not> endsWith p suffix
      then (if \<not> endsWith p ''/'' then p @ ''/'' else p) @ suffix
      else p)"

definition finish ::
  "deps \<Rightarrow> options \<Rightarrow> bool \<Rightarrow> https_value \<Rightarrow> flagval option \<Rightarrow> string \<Rightarrow> error + options" where
  "finish d opts noStart' https' scriptName' storybookUrl' =
     (case url_parse d storybookUrl' of
        None \<Rightarrow> Inl TypeError
      | Some parsedUrl \<Rightarrow>
          (case pathname parsedUrl of
             None \<Rightarrow> Inl TypeError
           | Some p \<Rightarrow>
               Inr (opts\<lparr>noStart := noStart',
                          useTunnel := Some True,
                          https := https',
                          url := Some (format (parsedUrl\<lparr>pathname := Some (withSuffix p)\<rparr>)),
                          scriptName := scriptName'\<rparr>)))"

text \<open>Lines 179 to 232: Storybook is started, or is running already.\<close>

definition localhostUrl :: "https_value \<Rightarrow> string \<Rightarrow> string" where
  "localhostUrl https' port' =
     (if truthy_https https' then ''https'' else ''http'') @ ''://localhost:'' @ port'"

definition startStorybook :: "deps \<Rightarrow> process \<Rightarrow> input \<Rightarrow> options \<Rightarrow> error + options" where
  "startStorybook d pr inp opts =
     (if truthy_flagval (onlyChanged opts) then Inl InvalidOnlyChanged
      else if \<not> truthy_str (storybookUrl opts) then
        (if truthy_str (exec opts) \<and> \<not> truthy_str (port opts) then Inl MissingStorybookPort
         else if \<not> truthy_str (exec opts) \<and> (\<not> truthy_str (port opts) \<or> \<not> noStart_of opts) then
           (case lookupScript d pr inp opts of
              Inl e \<Rightarrow> Inl e
            | Inr (name, https', port') \<Rightarrow>
                finish d opts (noStart_of opts) https' (Some (FlagStr name)) (localhostUrl https' port'))
         else finish d opts (noStart_of opts) (https_of_flags opts) (scriptName opts)
                (localhostUrl (https_of_flags opts) (template (port opts))))
      else finish d opts (noStart_of opts) (https_of_flags opts) (scriptName opts)
             (or_empty (storybookUrl opts)))"

text \<open>The test of line 161:
  \<^verbatim>\<open>!scriptName && !exec && !noStart && !storybookUrl && !port\<close>.\<close>

definition buildMode :: "options \<Rightarrow> bool" where
  "buildMode opts =
     (\<not> truthy_flagval (scriptName opts) \<and> \<not> truthy_str (exec opts) \<and> \<not> noStart_of opts \<and>
      \<not> truthy_str (storybookUrl opts) \<and> \<not> truthy_str (port opts))"

text \<open>The whole function: \<open>Inl\<close> is the error thrown, \<open>Inr\<close> the object
  returned.\<close>

definition getOptions :: "deps \<Rightarrow> process \<Rightarrow> input \<Rightarrow> error + options" where
  "getOptions d pr inp =
     (let opts = initial_options pr inp in
      case validation d inp opts of
        Some e \<Rightarrow> Inl e
      | None \<Rightarrow>
          if buildMode opts
          then buildStorybook inp opts
          else startStorybook d pr inp opts)"

section \<open>\<^verbatim>\<open>getCommitAndBranch\<close>\<close>

text \<open>
  A commit as \<^verbatim>\<open>getCommit\<close> resolves it: the \<open>sha\<close> and the other details
  (\<open>None\<close> in the record \<^verbatim>\<open>{ sha }\<close> that replaces a failed lookup). The
  three git queries are inputs; \<open>None\<close> is a rejected promise.
\<close>

record 'm commit =
  sha :: "string option"
  commitInfo :: "'m option"

record 'm git =
  getCommit :: "string option \<Rightarrow> 'm commit option"
  getBranch :: "string option"
  hasPreviousCommit :: "bool option"

text \<open>What \<^verbatim>\<open>envCi()\<close> returns, under the names the source gives its
  fields.\<close>

record envCi =
  isCi :: bool
  ciService :: "string option"
  prBranch :: "string option"
  ciBranch :: "string option"
  ciCommit :: "string option"
  ciSlug :: "string option"

text \<open>The second argument \<^verbatim>\<open>{ branchName, patchBaseRef, ci }\<close>.\<close>

record overrides =
  arg_branchName :: "string option"
  arg_patchBaseRef :: "string option"
  arg_ci :: "bool option"

text \<open>The object returned.\<close>

record 'm identity =
  commit :: "string option"
  commitDetails :: "'m option"
  branch :: string
  slug :: "string option"
  isTravisPrBuild :: bool
  identity_fromCI :: bool
  identity_ciService :: "string option"

text \<open>\<^verbatim>\<open>const notHead = (branch) => (branch && branch !== 'HEAD' ? branch : false);\<close>
  \<open>None\<close> is the result \<open>false\<close>.\<close>

fun notHead :: "string option \<Rightarrow> string option" where
  "notHead None = None"
| "notHead (Some b) = (if b \<noteq> [] \<and> b \<noteq> ''HEAD'' then Some b else None)"

text \<open>\<^verbatim>\<open>getCommit(ref).catch(() => ({ sha: ref }))\<close>.\<close>

definition getCommitOr :: "'m git \<Rightarrow> string option \<Rightarrow> 'm commit" where
  "getCommitOr g ref =
     (case getCommit g ref of
        Some c \<Rightarrow> c
      | None \<Rightarrow> \<lparr>sha = ref, commitInfo = None\<rparr>)"

text \<open>Line 349: \<^verbatim>\<open>getBranch\<close> is awaited only when neither override names a
  branch.\<close>

definition initialBranch :: "'m git \<Rightarrow> overrides \<Rightarrow> string option" where
  "initialBranch g ov =
     (case notHead (arg_branchName ov) of
        Some b \<Rightarrow> Some b
      | None \<Rightarrow>
          (case notHead (arg_patchBaseRef ov) of
             Some b \<Rightarrow> Some b
           | None \<Rightarrow> getBranch g))"

definition isFromEnvVariable :: "process \<Rightarrow> bool" where
  "isFromEnvVariable pr =
     (truthy_str (process_env pr ''CHROMATIC_SHA'') \<and> truthy_str (process_env pr ''CHROMATIC_BRANCH''))"

text \<open>Lines 378 to 426: the commit, branch and slug after the provider-specific
  part.\<close>

definition providerOverride ::
  "process \<Rightarrow> 'm git \<Rightarrow> 'm commit \<Rightarrow> string \<Rightarrow> error + ('m commit \<times> string \<times> string option)" where
  "providerOverride pr g commit0 branch0 =
     (let e = process_env pr in
      if isFromEnvVariable pr
      then Inr (getCommitOr g (e ''CHROMATIC_SHA''), or_empty (e ''CHROMATIC_BRANCH''), e ''CHROMATIC_SLUG'')
      else if e ''TRAVIS_EVENT_TYPE'' = Some ''pull_request'' then
        (if \<not> truthy_str (e ''TRAVIS_PULL_REQUEST_SHA'') \<or> \<not> truthy_str (e ''TRAVIS_PULL_REQUEST_BRANCH'')
         then Inl (MissingTravisInfo ''pull_request'')
         else Inr (getCommitOr g (e ''TRAVIS_PULL_REQUEST_SHA''),
                   or_empty (e ''TRAVIS_PULL_REQUEST_BRANCH''),
                   e ''TRAVIS_PULL_REQUEST_SLUG''))
      else if e ''GITHUB_EVENT_NAME'' = Some ''pull_request'' then
        (if \<not> truthy_str (e ''GITHUB_HEAD_REF'') \<or> \<not> truthy_str (e ''GITHUB_SHA'')
         then Inl (MissingGitHubInfo ''pull_request'')
         else if e ''GITHUB_BASE_REF'' = e ''GITHUB_HEAD_REF''
         then Inl (ForksUnsupported (or_empty (e ''GITHUB_HEAD_REF'')))
         else Inr ((case getCommit g (e ''GITHUB_HEAD_REF'') of
                      Some c \<Rightarrow> c
                    | None \<Rightarrow> \<lparr>sha = e ''GITHUB_SHA'', commitInfo = None\<rparr>),
                   or_empty (e ''GITHUB_HEAD_REF''),
                   e ''GITHUB_REPOSITORY''))
      else Inr (commit0, branch0, None))"

text \<open>Lines 348 to 426: the first two queries, the test of
  \<^verbatim>\<open>hasPreviousCommit\<close>, and the provider-specific part.\<close>

definition beforeFallback ::
  "process \<Rightarrow> 'm git \<Rightarrow> overrides \<Rightarrow> error + ('m commit \<times> string \<times> string option)" where
  "beforeFallback pr g ov =
     (case getCommit g None of
        None \<Rightarrow> Inl GitError
      | Some commit0 \<Rightarrow>
          (case initialBranch g ov of
             None \<Rightarrow> Inl GitError
           | Some branch0 \<Rightarrow>
               (case hasPreviousCommit g of
                  None \<Rightarrow> Inl GitError
                | Some has \<Rightarrow>
                    if \<not> has then Inl (GitOneCommit (process_env pr ''GITHUB_ACTIONS'' = Some ''true''))
                    else providerOverride pr g commit0 branch0)))"

text \<open>Lines 446 to 453: the first of the listed values that \<^verbatim>\<open>notHead\<close> keeps,
  else \<^verbatim>\<open>'HEAD'\<close>.\<close>

fun firstNotHead :: "string option list \<Rightarrow> string" where
  "firstNotHead [] = ''HEAD''"
| "firstNotHead (v # vs) = (case notHead v of Some b \<Rightarrow> b | None \<Rightarrow> firstNotHead vs)"

definition fallbackChain :: "process \<Rightarrow> envCi \<Rightarrow> string option list" where
  "fallbackChain pr ci =
     [prBranch ci, ciBranch ci, process_env pr ''HEAD'', process_env pr ''GERRIT_BRANCH'',
      process_env pr ''GITHUB_REF'', process_env pr ''CI_BRANCH'']"

text \<open>Lines 463 to 467: \<^verbatim>\<open>/^origin\//\<close> is removed from the branch.\<close>

definition stripOrigin :: "process \<Rightarrow> overrides \<Rightarrow> string \<Rightarrow> string" where
  "stripOrigin pr ov b =
     (if \<not> truthy_str (arg_branchName ov) \<and> \<not> isFromEnvVariable pr \<and> startsWith b ''origin/''
      then drop (length ''origin/'') b
      else b)"

text \<open>The whole function. The calls of the logger are not modelled.\<close>

definition getCommitAndBranch ::
  "process \<Rightarrow> 'm git \<Rightarrow> envCi \<Rightarrow> overrides \<Rightarrow> error + 'm identity" where
  "getCommitAndBranch pr g ci ov =
     (case beforeFallback pr g ov of
        Inl err \<Rightarrow> Inl err
      | Inr (commit1, branch1, slug1) \<Rightarrow>
          (let e = process_env pr;
               slug2 = (if truthy_str slug1 then slug1 else ciSlug ci);
               detached = (notHead (Some branch1) = None);
               commit2 = (if detached then getCommitOr g (ciCommit ci) else commit1);
               branch2 = (if detached then firstNotHead (fallbackChain pr ci) else branch1);
               fromCI' = (isCi ci \<or> truthy_bool (arg_ci ov) \<or> truthy_str (e ''CI'') \<or>
                          truthy_str (e ''REPOSITORY_URL'') \<or> truthy_str (e ''GITHUB_REPOSITORY''))
           in Inr \<lparr> commit = sha commit2,
                     commitDetails = commitInfo commit2,
                     branch = stripOrigin pr ov branch2,
                     slug = slug2,
                     isTravisPrBuild = (e ''TRAVIS_EVENT_TYPE'' = Some ''pull_request''),
                     identity_fromCI = fromCI',
                     identity_ciService = ciService ci \<rparr>))"

section \<open>Functions and inputs for running the model\<close>

text \<open>Modelled from the spec: \<^verbatim>\<open>getStorybookConfiguration\<close>, whose file is not
  among the sources. The spec says that the HTTPS flag, the certificate paths and the
  port number flag are parsed from the command-line text of the script: the command
  is cut into words at white space, the long name of the flag is looked for, then the
  short one, and the word after the flag is its value (no value when the flag is
  absent or is the last word).\<close>

fun words_from :: "string \<Rightarrow> string \<Rightarrow> string list" where
  "words_from cur [] = (if cur = [] then [] else [cur])"
| "words_from cur (c # cs) =
     (if c = CHR '' '' \<or> c = CHR 0x09 \<or> c = CHR 0x0A \<or> c = CHR 0x0D
      then (if cur = [] then [] else [cur]) @ words_from [] cs
      else words_from (cur @ [c]) cs)"

fun word_after :: "string \<Rightarrow> string list \<Rightarrow> string option" where
  "word_after name [] = None"
| "word_after name (w # ws) =
     (if w = name then (case ws of [] \<Rightarrow> None | v # _ \<Rightarrow> Some v) else word_after name ws)"

definition getStorybookConfiguration_spec :: "string \<Rightarrow> string \<Rightarrow> string option \<Rightarrow> string option" where
  "getStorybookConfiguration_spec storybookScript shortName longName =
     (let parts = words_from [] storybookScript in
      case longName of
        Some l \<Rightarrow> if l \<in> set parts then word_after l parts else word_after shortName parts
      | None \<Rightarrow> word_after shortName parts)"

text \<open>The result of \<^verbatim>\<open>url.parse\<close> on a plain \<open>http\<close> or \<open>https\<close> URL
  in lower case, \<open>scheme://host/path?query#fragment\<close> with a non-empty host: the
  host ends at the first \<open>/\<close>, \<open>?\<close> or \<open>#\<close>, the fragment starts at the first
  \<open>#\<close>, the query at the first \<open>?\<close> before it, and an empty path is \<open>/\<close>.
  On any other string this function gives \<open>None\<close>; it is not a model of the
  parser there.\<close>

definition parse_http_url :: "string \<Rightarrow> parsed_url option" where
  "parse_http_url s =
     (let scheme = (if startsWith s ''http://'' then ''http:''
                    else if startsWith s ''https://'' then ''https:'' else []);
          rest = drop (length scheme + 2) s;
          h = takeWhile (\<lambda>c. c \<noteq> CHR ''/'' \<and> c \<noteq> CHR ''?'' \<and> c \<noteq> CHR ''#'') rest;
          after = drop (length h) rest;
          before_hash = takeWhile (\<lambda>c. c \<noteq> CHR ''#'') after;
          p = takeWhile (\<lambda>c. c \<noteq> CHR ''?'') before_hash
      in if scheme = [] \<or> h = [] then None
         else Some \<lparr> protocol = scheme,
                      slashes = True,
                      host = h,
                      pathname = Some (if p = [] then ''/'' else p),
                      search = drop (length p) before_hash,
                      hash = drop (length before_hash) after \<rparr>)"

text \<open>One choice of the imported functions, for running \<^verbatim>\<open>getOptions\<close> on
  the inputs below, none of which has a report path, a path under the home
  directory or a script name inherited from \<^verbatim>\<open>Object.prototype\<close>.\<close>

definition example_deps :: deps where
  "example_deps =
     \<lparr> path_extname = (\<lambda>p. (if endsWith p ''.xml'' then ''.xml'' else [])),
       path_join = (\<lambda>a b. a @ b),
       url_parse = parse_http_url,
       getStorybookConfiguration = getStorybookConfiguration_spec,
       getStorybookConfiguration_inherited = (\<lambda>member shortName longName. None) \<rparr>"

text \<open>No flag given on the command line but \<^verbatim>\<open>--project-token\<close> (the parser
  sets \<^verbatim>\<open>interactive\<close> to its default \<open>true\<close>).\<close>

definition token_only :: flags where
  "token_only =
     \<lparr> flag_projectToken = Some (Multiple [''token'']),
       flag_appCode = None,
       flag_buildScriptName = None,
       flag_outputDir = None,
       flag_storybookBuildDir = None,
       flag_allowConsoleErrors = None,
       flag_autoAcceptChanges = None,
       flag_exitOnceUploaded = None,
       flag_exitZeroOnChanges = None,
       flag_ignoreLastBuildOnBranch = None,
       flag_only = None,
       flag_onlyChanged = None,
       flag_untraced = None,
       flag_externals = None,
       flag_branchName = None,
       flag_patchBuild = None,
       flag_preserveMissing = None,
       flag_skip = None,
       flag_storybookBaseDir = None,
       flag_zip = None,
       flag_ci = None,
       flag_debug = None,
       flag_diagnostics = None,
       flag_dryRun = None,
       flag_junitReport = None,
       flag_list = None,
       flag_interactive = Some True,
       flag_doNotStart = None,
       flag_exec = None,
       flag_scriptName = None,
       flag_storybookPort = None,
       flag_storybookUrl = None,
       flag_storybookHttps = None,
       flag_storybookCert = None,
       flag_storybookKey = None,
       flag_storybookCa = None \<rparr>"

text \<open>An input with these flags, an empty environment, a logger and the given script
  table; a process with an empty environment on a terminal.\<close>

definition input_with :: "flags \<Rightarrow> (string \<times> string) list \<Rightarrow> input" where
  "input_with fl scr =
     \<lparr> argv = [], env = Map.empty, flags = fl, log = True,
       packageJson = \<lparr>scripts = Some scr\<rparr> \<rparr>"

definition terminal :: process where
  "terminal = \<lparr> process_env = Map.empty, stdout_isTTY = True \<rparr>"

text \<open>A repository whose queries succeed, on the given branch and with or without
  a commit before the current one; no CI service detected; no override.\<close>

definition repository :: "string \<Rightarrow> bool \<Rightarrow> unit git" where
  "repository b has =
     \<lparr> getCommit = (\<lambda>ref. Some \<lparr>sha = Some ''0a1b2c'', commitInfo = Some ()\<rparr>),
       getBranch = Some b,
       hasPreviousCommit = Some has \<rparr>"

definition no_ci :: envCi where
  "no_ci =
     \<lparr> isCi = False, ciService = None, prBranch = None, ciBranch = None,
       ciCommit = None, ciSlug = None \<rparr>"

definition no_overrides :: overrides where
  "no_overrides = \<lparr> arg_branchName = None, arg_patchBaseRef = None, arg_ci = None \<rparr>"

section \<open>Facts about the stages of \<^verbatim>\<open>getOptions\<close>\<close>

lemmas model_defs =
  getOptions_def initial_options_def validation_def buildMode_def buildStorybook_def
  startStorybook_def lookupScript_def readScript_def readHttps_def readPath_def script_at_def
  object_prototype_members_def finish_def withSuffix_def suffix_def localhostUrl_def
  noStart_of_def https_of_flags_def foundSingularOpts_def option_set_def singularOpts_def
  inferBuildScriptName_def undefinedIfEmpty_def split_def startsWith_def endsWith_def
  format_def escape_pathname_def resolveHomeDir_def
  example_deps_def token_only_def input_with_def terminal_def parse_http_url_def
  getStorybookConfiguration_spec_def

lemma buildStorybook_shape:
  assumes "buildStorybook inp opts = Inr r"
  shows "r = opts\<lparr>noStart := True, useTunnel := Some False\<rparr> \<or>
         (\<exists>b. r = opts\<lparr>noStart := True, useTunnel := Some False, buildScriptName := Some b\<rparr>)"
proof (cases "truthy_str (storybookBuildDir opts)")
  case True
  with assms have "opts\<lparr>noStart := True, useTunnel := Some False\<rparr> = r"
    by (simp add: buildStorybook_def)
  then show ?thesis by blast
next
  case False
  show ?thesis
  proof (cases "scripts (packageJson inp)")
    case None
    with False assms show ?thesis
      by (simp add: buildStorybook_def split: option.splits)
  next
    case (Some scr)
    define b where "b = (case buildScriptName opts of Some b \<Rightarrow> b | None \<Rightarrow> inferBuildScriptName scr)"
    from Some False assms
    have "opts\<lparr>noStart := True, useTunnel := Some False, buildScriptName := Some b\<rparr> = r"
      by (simp add: buildStorybook_def b_def Let_def split: if_splits)
    then show ?thesis by blast
  qed
qed

lemma finish_shape:
  assumes "finish d opts n h sn u = Inr r"
  shows "\<exists>pu p. url_parse d u = Some pu \<and> pathname pu = Some p \<and>
           r = opts\<lparr>noStart := n, useTunnel := Some True, https := h,
                     url := Some (format (pu\<lparr>pathname := Some (withSuffix p)\<rparr>)), scriptName := sn\<rparr>"
proof (cases "url_parse d u")
  case None
  with assms show ?thesis by (simp add: finish_def)
next
  case (Some pu)
  show ?thesis
  proof (cases "pathname pu")
    case None
    with Some assms show ?thesis by (simp add: finish_def)
  next
    case (Some p)
    with \<open>url_parse d u = Some pu\<close> assms
    have "opts\<lparr>noStart := n, useTunnel := Some True, https := h,
                     url := Some (format (pu\<lparr>pathname := Some (withSuffix p)\<rparr>)), scriptName := sn\<rparr> = r"
      by (simp add: finish_def)
    with Some \<open>url_parse d u = Some pu\<close> show ?thesis by blast
  qed
qed

lemma startStorybook_shape:
  assumes "startStorybook d pr inp opts = Inr r"
  shows "\<exists>h sn u pu p.
           (if truthy_str (storybookUrl opts) then u = or_empty (storybookUrl opts)
            else \<exists>port'. u = localhostUrl h port') \<and>
           url_parse d u = Some pu \<and> pathname pu = Some p \<and>
           r = opts\<lparr>noStart := noStart_of opts, useTunnel := Some True, https := h,
                     url := Some (format (pu\<lparr>pathname := Some (withSuffix p)\<rparr>)), scriptName := sn\<rparr>"
proof -
  from assms obtain h sn u where "finish d opts (noStart_of opts) h sn u = Inr r"
    and "if truthy_str (storybookUrl opts) then u = or_empty (storybookUrl opts)
         else \<exists>port'. u = localhostUrl h port'"
    by (simp add: startStorybook_def split: if_splits sum.splits prod.splits) blast+
  with finish_shape [of d opts "noStart_of opts" h sn u r] show ?thesis by blast
qed

lemma getOptions_Inr:
  assumes "getOptions d pr inp = Inr r"
  shows "validation d inp (initial_options pr inp) = None"
    and "buildMode (initial_options pr inp) \<Longrightarrow> buildStorybook inp (initial_options pr inp) = Inr r"
    and "\<not> buildMode (initial_options pr inp) \<Longrightarrow> startStorybook d pr inp (initial_options pr inp) = Inr r"
  using assms by (auto simp: getOptions_def Let_def split: option.splits if_splits)

lemma getOptions_invalid:
  "validation d inp (initial_options pr inp) = Some e \<Longrightarrow> getOptions d pr inp = Inl e"
  by (simp add: getOptions_def Let_def)

lemma getOptions_valid:
  "validation d inp (initial_options pr inp) = None \<Longrightarrow>
   getOptions d pr inp =
     (if buildMode (initial_options pr inp) then buildStorybook inp (initial_options pr inp)
      else startStorybook d pr inp (initial_options pr inp))"
  by (simp add: getOptions_def Let_def)

text \<open>The fields no return statement sets are those of \<^verbatim>\<open>options\<close>.\<close>

lemma getOptions_keeps:
  assumes "getOptions d pr inp = Inr r"
  shows "interactive r = interactive (initial_options pr inp) \<and>
         verbose r = verbose (initial_options pr inp) \<and>
         fromCI r = fromCI (initial_options pr inp) \<and>
         branchName r = branchName (initial_options pr inp) \<and>
         ownerName r = ownerName (initial_options pr inp) \<and>
         exec r = exec (initial_options pr inp) \<and>
         storybookBuildDir r = storybookBuildDir (initial_options pr inp) \<and>
         storybookUrl r = storybookUrl (initial_options pr inp)"
proof (cases "buildMode (initial_options pr inp)")
  case True
  from buildStorybook_shape [OF getOptions_Inr(2) [OF assms True]] show ?thesis
    by (elim disjE exE) simp_all
next
  case False
  from startStorybook_shape [OF getOptions_Inr(3) [OF assms False]] show ?thesis
    by (elim exE conjE) simp
qed

text \<open>The errors of each stage.\<close>

lemma payload_eq:
  "map (\<lambda>key. template (map_of singularOpts key)) (foundSingularOpts opts) = set_selector_flags opts"
  by (simp add: foundSingularOpts_def singularOpts_def option_set_def set_selector_flags_def)

lemma length_found: "length (foundSingularOpts opts) = length (set_selector_flags opts)"
  using payload_eq [of opts, THEN arg_cong, of length] by simp

lemma buildStorybook_errors:
  "buildStorybook inp opts = Inl e \<Longrightarrow> e = TypeError \<or> (\<exists>b. e = MissingBuildScriptName b)"
  by (auto simp: buildStorybook_def Let_def split: if_splits option.splits)

lemma finish_errors: "finish d opts n h sn u = Inl e \<Longrightarrow> e = TypeError"
  by (auto simp: finish_def split: option.splits)

lemma resolveHomeDir_errors: "resolveHomeDir d pr f = Inl e \<Longrightarrow> e = TypeError"
  by (auto simp: resolveHomeDir_def split: option.splits if_splits)

lemma readPath_errors:
  assumes "\<And>shortName longName e. conf shortName longName = Inl e \<Longrightarrow> e = TypeError"
    and "readPath d pr conf flag = Inl e"
  shows "e = TypeError"
  using assms(2) assms(1) [of flag None]
  by (auto simp: readPath_def split: sum.splits dest: resolveHomeDir_errors)

lemma readHttps_errors:
  assumes "\<And>shortName longName e. conf shortName longName = Inl e \<Longrightarrow> e = TypeError"
    and "readHttps d pr conf = Inl e"
  shows "e = TypeError"
  using assms(2) assms(1) [of "''--https''" None] readPath_errors [of conf d pr _ e, OF assms(1)]
  by (auto simp: readHttps_def split: sum.splits if_splits)

lemma readScript_errors:
  assumes "\<And>shortName longName e. conf shortName longName = Inl e \<Longrightarrow> e = TypeError"
    and "readScript d pr opts name conf = Inl e"
  shows "e = TypeError \<or> (\<exists>n. e = UnknownStorybookPort n)"
  using assms(2) assms(1) [of "''-p''" "Some ''--port''"] readHttps_errors [of conf d pr e, OF assms(1)]
  by (auto simp: readScript_def split: sum.splits if_splits option.splits)

lemma lookupScript_errors:
  assumes "lookupScript d pr inp opts = Inl e"
  shows "e = TypeError \<or> (\<exists>n. e = MissingScriptName n) \<or> (\<exists>n. e = UnknownStorybookPort n)"
proof -
  define name where "name = (case scriptName opts of Some (FlagStr s) \<Rightarrow> s | _ \<Rightarrow> ''storybook'')"
  define script where "script = (case scripts (packageJson inp) of
                               None \<Rightarrow> NoScript
                             | Some scr \<Rightarrow> script_at scr name)"
  show ?thesis
  proof (cases script)
    case NoScript
    with assms have "e = MissingScriptName name"
      by (simp add: lookupScript_def Let_def name_def [symmetric] script_def [symmetric])
    then show ?thesis by blast
  next
    case (Command c)
    show ?thesis
    proof (cases "c = []")
      case True
      with Command assms have "e = MissingScriptName name"
        by (simp add: lookupScript_def Let_def name_def [symmetric] script_def [symmetric])
      then show ?thesis by blast
    next
      case False
      with Command assms
      have r: "readScript d pr opts name
                 (\<lambda>shortName longName. Inr (getStorybookConfiguration d c shortName longName)) = Inl e"
        by (simp add: lookupScript_def Let_def name_def [symmetric] script_def [symmetric])
      have "e = TypeError \<or> (\<exists>n. e = UnknownStorybookPort n)"
        by (rule readScript_errors [OF _ r]) simp
      then show ?thesis by blast
    qed
  next
    case (Inherited m)
    with assms
    have r: "readScript d pr opts name
               (\<lambda>shortName longName.
                   case getStorybookConfiguration_inherited d m shortName longName of
                     None \<Rightarrow> Inl TypeError
                   | Some v \<Rightarrow> Inr v) = Inl e"
      by (simp add: lookupScript_def Let_def name_def [symmetric] script_def [symmetric])
    have "e = TypeError \<or> (\<exists>n. e = UnknownStorybookPort n)"
      by (rule readScript_errors [OF _ r]) (simp split: option.splits)
    then show ?thesis by blast
  qed
qed

lemma startStorybook_errors:
  "startStorybook d pr inp opts = Inl e \<Longrightarrow>
     e = InvalidOnlyChanged \<or> e = MissingStorybookPort \<or> e = TypeError \<or>
     (\<exists>n. e = MissingScriptName n) \<or> (\<exists>n. e = UnknownStorybookPort n)"
  by (auto simp: startStorybook_def split: if_splits sum.splits prod.splits
      dest: finish_errors lookupScript_errors)

lemma getOptions_Inl:
  assumes "getOptions d pr inp = Inl e"
  shows "validation d inp (initial_options pr inp) = Some e \<or>
         (validation d inp (initial_options pr inp) = None \<and>
          (e = TypeError \<or> e = InvalidOnlyChanged \<or> e = MissingStorybookPort \<or>
           (\<exists>n. e = MissingBuildScriptName n) \<or> (\<exists>n. e = MissingScriptName n) \<or>
           (\<exists>n. e = UnknownStorybookPort n)))"
proof (cases "validation d inp (initial_options pr inp)")
  case (Some e')
  with assms show ?thesis by (simp add: getOptions_invalid)
next
  case None
  with assms have "(if buildMode (initial_options pr inp) then buildStorybook inp (initial_options pr inp)
      else startStorybook d pr inp (initial_options pr inp)) = Inl e"
    by (simp add: getOptions_valid)
  with None show ?thesis
    by (auto split: if_splits dest: buildStorybook_errors startStorybook_errors)
qed

section \<open>The interactive flag\<close>

text \<open>
  C10. In every object \<^verbatim>\<open>getOptions\<close> returns, \<open>interactive\<close> is true only if
  the debug flag is not on, the run is not from CI (neither the \<open>ci\<close> flag nor the
  \<open>CI\<close> environment variable is on), the \<open>interactive\<close> flag is truthy and
  standard output is a terminal; in fact it is true exactly then. \<open>verbose\<close> is the
  debug flag and \<open>fromCI\<close> is the CI test, so \<open>interactive\<close> is false whenever
  \<open>verbose\<close> or \<open>fromCI\<close> is true.
\<close>

theorem interactive_only_if:
  assumes "getOptions d pr inp = Inr r"
  shows "interactive r =
           (\<not> truthy_bool (flag_debug (flags inp)) \<and> \<not> truthy_bool (flag_ci (flags inp)) \<and>
            \<not> truthy_str (process_env pr ''CI'') \<and> truthy_bool (flag_interactive (flags inp)) \<and>
            stdout_isTTY pr) \<and>
         verbose r = truthy_bool (flag_debug (flags inp)) \<and>
         fromCI r = (truthy_bool (flag_ci (flags inp)) \<or> truthy_str (process_env pr ''CI'')) \<and>
         (verbose r \<or> fromCI r \<longrightarrow> \<not> interactive r)"
  using getOptions_keeps [OF assms]
  by (auto simp: initial_options_def Let_def)

theorem interactive_only_if_witness:
  "\<exists>r. getOptions example_deps terminal
          (input_with token_only [(''build-storybook'', ''build-storybook -o out'')]) = Inr r \<and>
       interactive r \<and> \<not> verbose r \<and> \<not> fromCI r"
proof -
  obtain r where r: "getOptions example_deps terminal
          (input_with token_only [(''build-storybook'', ''build-storybook -o out'')]) = Inr r"
    by (simp add: model_defs)
  from interactive_only_if [OF r] show ?thesis
    using r by (simp add: terminal_def input_with_def token_only_def)
qed

section \<open>A repository without a previous commit\<close>

text \<open>
  C8. When \<^verbatim>\<open>hasPreviousCommit\<close> answers false, \<^verbatim>\<open>getCommitAndBranch\<close>
  returns no identity, whatever the environment, the overrides and the CI service;
  and it throws the error \<^verbatim>\<open>gitOneCommit\<close> whenever the two queries awaited
  before that test (the current commit and, when no override names a branch, the
  current branch) have answered.
\<close>

theorem no_previous_commit_is_fatal:
  assumes "hasPreviousCommit g = Some False"
  shows "(\<forall>r. getCommitAndBranch pr g ci ov \<noteq> Inr r) \<and>
         (getCommit g None \<noteq> None \<and> initialBranch g ov \<noteq> None \<longrightarrow>
          getCommitAndBranch pr g ci ov =
            Inl (GitOneCommit (process_env pr ''GITHUB_ACTIONS'' = Some ''true'')))"
  using assms
  by (auto simp: getCommitAndBranch_def beforeFallback_def split: option.splits)

theorem no_previous_commit_is_fatal_witness:
  "getCommitAndBranch terminal (repository ''main'' False) no_ci no_overrides =
     Inl (GitOneCommit False)"
proof -
  have h: "hasPreviousCommit (repository ''main'' False) = Some False"
    by (simp add: repository_def)
  from no_previous_commit_is_fatal [OF h, of terminal no_ci no_overrides] show ?thesis
    by (simp add: repository_def initialBranch_def no_overrides_def terminal_def)
qed

section \<open>The checks of the \<open>only\<close> flag and of the single run mode\<close>

text \<open>The regular expression of line 101 accepts exactly the strings that contain,
  anywhere, a slash between two characters that are each a word character or a
  star.\<close>

lemma only_regexp_test_iff:
  "only_regexp_test s \<longleftrightarrow>
     (\<exists>pre a c post. s = pre @ a # CHR ''/'' # c # post \<and> word_or_star a \<and> word_or_star c)"
proof
  show "only_regexp_test s \<Longrightarrow> \<exists>pre a c post. s = pre @ a # CHR ''/'' # c # post \<and> word_or_star a \<and> word_or_star c"
  proof (induction s rule: only_regexp_test.induct)
    case (1 a b c rest)
    show ?case
    proof (cases "word_or_star a \<and> b = CHR ''/'' \<and> word_or_star c")
      case True
      then have "a # b # c # rest = [] @ a # CHR ''/'' # c # rest \<and> word_or_star a \<and> word_or_star c"
        by simp
      then show ?thesis by blast
    next
      case False
      with 1 obtain pre a' c' post where "b # c # rest = pre @ a' # CHR ''/'' # c' # post"
        "word_or_star a'" "word_or_star c'" by auto
      then have "a # b # c # rest = (a # pre) @ a' # CHR ''/'' # c' # post \<and> word_or_star a' \<and> word_or_star c'"
        by simp
      then show ?thesis by blast
    qed
  qed simp_all
next
  assume "\<exists>pre a c post. s = pre @ a # CHR ''/'' # c # post \<and> word_or_star a \<and> word_or_star c"
  then obtain pre a c post where s: "s = pre @ a # CHR ''/'' # c # post"
    and w: "word_or_star a" "word_or_star c" by blast
  have "only_regexp_test (pre @ a # CHR ''/'' # c # post)"
  proof (induction pre)
    case Nil
    with w show ?case by simp
  next
    case (Cons x pre)
    obtain y z t where "pre @ a # CHR ''/'' # c # post = y # z # t"
      by (cases pre; cases "tl pre") auto
    with Cons show ?case by simp
  qed
  with s show "only_regexp_test s" by simp
qed

lemma validation_InvalidOnly_D:
  "validation d inp opts = Some InvalidOnly \<Longrightarrow>
     truthy_str (flag_only (flags inp)) \<and> \<not> only_regexp_test (or_empty (flag_only (flags inp)))"
  by (simp add: validation_def split: if_splits)

lemma validation_InvalidSingularOptions_D:
  "validation d inp opts = Some (InvalidSingularOptions p) \<Longrightarrow>
     (1 < length (foundSingularOpts opts) \<and>
      p = map (\<lambda>key. template (map_of singularOpts key)) (foundSingularOpts opts)) \<or>
     (\<not> 1 < length (foundSingularOpts opts) \<and> truthy_str (only opts) \<and>
      truthy_flagval (onlyChanged opts) \<and> p = [''--only'', ''--only-changed''])"
  by (simp add: validation_def split: if_splits)

text \<open>When none of the first four checks throws, their tests are false.\<close>

lemma validation_early:
  assumes "\<not> (truthy_bool (flag_debug (flags inp)) \<and> \<not> log inp)"
    and "validation d inp opts \<notin> {Some MissingProjectToken, Some InvalidPatchBuild, Some DuplicatePatchBuild}"
  shows "\<not> \<not> truthy_str (projectToken opts)"
    and "\<not> (truthy_str (flag_patchBuild (flags inp)) \<and>
              (\<not> truthy_str (patchHeadRef opts) \<or> \<not> truthy_str (patchBaseRef opts)))"
    and "\<not> (truthy_str (flag_patchBuild (flags inp)) \<and> patchHeadRef opts = patchBaseRef opts)"
proof -
  show t: "\<not> \<not> truthy_str (projectToken opts)"
  proof
    assume c: "\<not> truthy_str (projectToken opts)"
    have "validation d inp opts = Some MissingProjectToken"
      by (simp only: validation_def if_not_P [OF assms(1)] if_P [OF c])
    with assms(2) show False by simp
  qed
  show p: "\<not> (truthy_str (flag_patchBuild (flags inp)) \<and>
              (\<not> truthy_str (patchHeadRef opts) \<or> \<not> truthy_str (patchBaseRef opts)))"
  proof
    assume c: "truthy_str (flag_patchBuild (flags inp)) \<and>
              (\<not> truthy_str (patchHeadRef opts) \<or> \<not> truthy_str (patchBaseRef opts))"
    have "validation d inp opts = Some InvalidPatchBuild"
      by (simp only: validation_def if_not_P [OF assms(1)] if_not_P [OF t] if_P [OF c])
    with assms(2) show False by simp
  qed
  show "\<not> (truthy_str (flag_patchBuild (flags inp)) \<and> patchHeadRef opts = patchBaseRef opts)"
  proof
    assume c: "truthy_str (flag_patchBuild (flags inp)) \<and> patchHeadRef opts = patchBaseRef opts"
    have "validation d inp opts = Some DuplicatePatchBuild"
      by (simp only: validation_def if_not_P [OF assms(1)] if_not_P [OF t] if_not_P [OF p] if_P [OF c])
    with assms(2) show False by simp
  qed
qed

lemma validation_only:
  assumes "\<not> (truthy_bool (flag_debug (flags inp)) \<and> \<not> log inp)"
    and "validation d inp opts \<notin> {Some MissingProjectToken, Some InvalidPatchBuild, Some DuplicatePatchBuild}"
    and "truthy_str (flag_only (flags inp)) \<and> \<not> only_regexp_test (or_empty (flag_only (flags inp)))"
  shows "validation d inp opts = Some InvalidOnly"
  by (simp only: validation_def if_not_P [OF assms(1)] if_not_P [OF validation_early(1) [OF assms(1,2)]]
      if_not_P [OF validation_early(2) [OF assms(1,2)]] if_not_P [OF validation_early(3) [OF assms(1,2)]]
      if_P [OF assms(3)])

lemma validation_singular:
  assumes "\<not> (truthy_bool (flag_debug (flags inp)) \<and> \<not> log inp)"
    and "validation d inp opts \<notin>
           {Some MissingProjectToken, Some InvalidPatchBuild, Some DuplicatePatchBuild, Some InvalidOnly}"
  shows "validation d inp opts = Some (InvalidSingularOptions p) \<longleftrightarrow>
           (if 1 < length (set_selector_flags opts) then p = set_selector_flags opts
            else truthy_str (only opts) \<and> truthy_flagval (onlyChanged opts) \<and>
                 p = [''--only'', ''--only-changed''])"
proof -
  have e: "validation d inp opts \<notin> {Some MissingProjectToken, Some InvalidPatchBuild, Some DuplicatePatchBuild}"
    using assms(2) by simp
  note early = validation_early [OF assms(1) e]
  have o: "\<not> (truthy_str (flag_only (flags inp)) \<and> \<not> only_regexp_test (or_empty (flag_only (flags inp))))"
  proof
    assume "truthy_str (flag_only (flags inp)) \<and> \<not> only_regexp_test (or_empty (flag_only (flags inp)))"
    from validation_only [OF assms(1) e this] assms(2) show False by simp
  qed
  have start: "validation d inp opts =
      (if 1 < length (foundSingularOpts opts)
       then Some (InvalidSingularOptions (map (\<lambda>key. template (map_of singularOpts key)) (foundSingularOpts opts)))
       else if truthy_str (only opts) \<and> truthy_flagval (onlyChanged opts)
       then Some (InvalidSingularOptions [''--only'', ''--only-changed''])
       else validation d inp opts)"
  proof (cases "1 < length (foundSingularOpts opts)")
    case True
    show ?thesis
      by (simp only: validation_def if_not_P [OF assms(1)] if_not_P [OF early(1)]
        if_not_P [OF early(2)] if_not_P [OF early(3)] if_not_P [OF o] if_P [OF True])
  next
    case False
    show ?thesis
    proof (cases "truthy_str (only opts) \<and> truthy_flagval (onlyChanged opts)")
      case True
      show ?thesis
        by (simp only: validation_def if_not_P [OF assms(1)] if_not_P [OF early(1)]
          if_not_P [OF early(2)] if_not_P [OF early(3)] if_not_P [OF o] if_not_P [OF False] if_P [OF True])
    next
      case no: False
      show ?thesis
        by (simp only: if_not_P [OF False] if_not_P [OF no])
    qed
  qed
  show ?thesis
  proof
    assume v: "validation d inp opts = Some (InvalidSingularOptions p)"
    from validation_InvalidSingularOptions_D [OF v]
    show "if 1 < length (set_selector_flags opts) then p = set_selector_flags opts
            else truthy_str (only opts) \<and> truthy_flagval (onlyChanged opts) \<and>
                 p = [''--only'', ''--only-changed'']"
      by (auto simp: length_found payload_eq)
  next
    assume r: "if 1 < length (set_selector_flags opts) then p = set_selector_flags opts
            else truthy_str (only opts) \<and> truthy_flagval (onlyChanged opts) \<and>
                 p = [''--only'', ''--only-changed'']"
    show "validation d inp opts = Some (InvalidSingularOptions p)"
    proof (cases "1 < length (set_selector_flags opts)")
      case True
      with r have p: "p = set_selector_flags opts" by simp
      from True have "1 < length (foundSingularOpts opts)" by (simp add: length_found)
      with start show ?thesis by (simp add: payload_eq p)
    next
      case False
      with r have p: "truthy_str (only opts) \<and> truthy_flagval (onlyChanged opts)"
        "p = [''--only'', ''--only-changed'']" by simp_all
      from False have "\<not> 1 < length (foundSingularOpts opts)" by (simp add: length_found)
      with start p show ?thesis by simp
    qed
  qed
qed

lemma getOptions_Inl_validation:
  assumes "e \<in> {MissingProjectToken, InvalidPatchBuild, DuplicatePatchBuild, InvalidOnly} \<or>
           (\<exists>p. e = InvalidSingularOptions p)"
  shows "getOptions d pr inp = Inl e \<longleftrightarrow> validation d inp (initial_options pr inp) = Some e"
  using assms getOptions_Inl [of d pr inp e] getOptions_invalid [of d inp pr e] by auto

text \<open>
  C3, as amended. \<^verbatim>\<open>getOptions\<close> throws the error \<^verbatim>\<open>invalidOnly\<close> only when the
  \<open>only\<close> flag is a non-empty string that the regular expression rejects; and it
  does throw it for every such value, unless one of the earlier checks throws first
  (a debug flag without a logger, the project token, the patch build). An \<open>only\<close>
  flag with an empty value is treated as absent and is never rejected.
\<close>

theorem invalid_only:
  "(getOptions d pr inp = Inl InvalidOnly \<longrightarrow>
      (\<exists>s. flag_only (flags inp) = Some s \<and> s \<noteq> [] \<and> \<not> only_regexp_test s)) \<and>
   (\<not> (truthy_bool (flag_debug (flags inp)) \<and> \<not> log inp) \<and>
    getOptions d pr inp \<notin> {Inl MissingProjectToken, Inl InvalidPatchBuild, Inl DuplicatePatchBuild} \<and>
    (\<exists>s. flag_only (flags inp) = Some s \<and> s \<noteq> [] \<and> \<not> only_regexp_test s) \<longrightarrow>
      getOptions d pr inp = Inl InvalidOnly)"
proof -
  let ?v = "validation d inp (initial_options pr inp)"
  let ?bad = "truthy_str (flag_only (flags inp)) \<and> \<not> only_regexp_test (or_empty (flag_only (flags inp)))"
  have bad: "?bad \<longleftrightarrow> (\<exists>s. flag_only (flags inp) = Some s \<and> s \<noteq> [] \<and> \<not> only_regexp_test s)"
    by (cases "flag_only (flags inp)") auto
  have res: "getOptions d pr inp = Inl InvalidOnly \<longleftrightarrow> ?v = Some InvalidOnly"
    by (rule getOptions_Inl_validation) simp
  have "?bad" if "?v = Some InvalidOnly"
    using that by (rule validation_InvalidOnly_D)
  then have 1: "getOptions d pr inp = Inl InvalidOnly \<longrightarrow>
      (\<exists>s. flag_only (flags inp) = Some s \<and> s \<noteq> [] \<and> \<not> only_regexp_test s)"
    using res bad by blast
  have 2: "getOptions d pr inp = Inl InvalidOnly"
    if a: "\<not> (truthy_bool (flag_debug (flags inp)) \<and> \<not> log inp)"
      and b: "getOptions d pr inp \<notin> {Inl MissingProjectToken, Inl InvalidPatchBuild, Inl DuplicatePatchBuild}"
      and c: "?bad"
  proof -
    have early: "?v \<notin> {Some MissingProjectToken, Some InvalidPatchBuild, Some DuplicatePatchBuild}"
      using b getOptions_invalid [of d inp pr] by auto
    from validation_only [OF a early c] res show ?thesis by simp
  qed
  from 1 2 bad show ?thesis by blast
qed

theorem invalid_only_witness:
  "getOptions example_deps terminal (input_with (token_only\<lparr>flag_only := Some ''Button''\<rparr>) []) =
     Inl InvalidOnly"
proof -
  let ?inp = "input_with (token_only\<lparr>flag_only := Some ''Button''\<rparr>) []"
  have a: "\<not> (truthy_bool (flag_debug (flags ?inp)) \<and> \<not> log ?inp)"
    by (simp add: input_with_def token_only_def)
  have b: "getOptions example_deps terminal ?inp \<notin>
             {Inl MissingProjectToken, Inl InvalidPatchBuild, Inl DuplicatePatchBuild}"
    by (simp add: model_defs word_or_star_def)
  have c: "\<exists>s. flag_only (flags ?inp) = Some s \<and> s \<noteq> [] \<and> \<not> only_regexp_test s"
    by (simp add: input_with_def word_or_star_def)
  from invalid_only [of example_deps terminal ?inp] a b c show ?thesis by blast
qed

text \<open>The claim as first stated, for every input whose \<open>only\<close> flag is present, fails
  for the empty value, which does not match and is accepted, and for an input without
  a project token, where another error is thrown.\<close>

theorem empty_only_is_not_rejected:
  "map_sum id only (getOptions example_deps terminal
      (input_with (token_only\<lparr>flag_only := Some []\<rparr>) [(''build-storybook'', ''build-storybook'')])) =
     Inr (Some []) \<and>
   \<not> only_regexp_test [] \<and>
   getOptions example_deps terminal
      (input_with (token_only\<lparr>flag_projectToken := None, flag_only := Some ''Button''\<rparr>) []) =
     Inl MissingProjectToken \<and>
   \<not> only_regexp_test ''Button''"
  by (simp add: model_defs word_or_star_def)

text \<open>
  C4, as amended. When none of the earlier checks throws (a debug flag without a
  logger, the project token, the patch build, the \<open>only\<close> pattern): if more than
  one of the five options \<open>buildScriptName\<close>, \<open>scriptName\<close>, \<open>exec\<close>,
  \<open>storybookUrl\<close> and \<open>storybookBuildDir\<close> is set (truthy after normalization),
  \<^verbatim>\<open>getOptions\<close> throws \<^verbatim>\<open>invalidSingularOptions\<close> with exactly the names of
  those that are set, in the order of the table; if at most one is set, this error
  is thrown only for \<open>only\<close> together with \<open>onlyChanged\<close>, and then it names
  \<open>--only\<close> and \<open>--only-changed\<close>, never a run-mode option.
\<close>

theorem singular_options:
  assumes "\<not> (truthy_bool (flag_debug (flags inp)) \<and> \<not> log inp)"
    and "getOptions d pr inp \<notin>
           {Inl MissingProjectToken, Inl InvalidPatchBuild, Inl DuplicatePatchBuild, Inl InvalidOnly}"
  shows "(1 < length (set_selector_flags (initial_options pr inp)) \<longrightarrow>
            getOptions d pr inp =
              Inl (InvalidSingularOptions (set_selector_flags (initial_options pr inp)))) \<and>
         (length (set_selector_flags (initial_options pr inp)) \<le> 1 \<longrightarrow>
            (\<forall>p. getOptions d pr inp = Inl (InvalidSingularOptions p) \<longleftrightarrow>
               truthy_str (only (initial_options pr inp)) \<and>
               truthy_flagval (onlyChanged (initial_options pr inp)) \<and>
               p = [''--only'', ''--only-changed'']))"
proof -
  let ?o = "initial_options pr inp"
  let ?v = "validation d inp ?o"
  have early: "?v \<notin> {Some MissingProjectToken, Some InvalidPatchBuild, Some DuplicatePatchBuild, Some InvalidOnly}"
    using assms(2) getOptions_invalid [of d inp pr] by auto
  have res: "getOptions d pr inp = Inl (InvalidSingularOptions p) \<longleftrightarrow> ?v = Some (InvalidSingularOptions p)" for p
    by (rule getOptions_Inl_validation) simp
  show ?thesis
    unfolding res validation_singular [OF assms(1) early] by simp
qed

theorem singular_options_witness:
  "getOptions example_deps terminal
     (input_with (token_only\<lparr>flag_exec := Some ''yarn storybook'',
                           flag_storybookUrl := Some ''http://localhost:6006''\<rparr>) []) =
     Inl (InvalidSingularOptions [''--exec'', ''--storybook-url''])"
proof -
  let ?inp = "input_with (token_only\<lparr>flag_exec := Some ''yarn storybook'',
                           flag_storybookUrl := Some ''http://localhost:6006''\<rparr>) []"
  have a: "\<not> (truthy_bool (flag_debug (flags ?inp)) \<and> \<not> log ?inp)"
    by (simp add: input_with_def token_only_def)
  have b: "getOptions example_deps terminal ?inp \<notin>
             {Inl MissingProjectToken, Inl InvalidPatchBuild, Inl DuplicatePatchBuild, Inl InvalidOnly}"
    by (simp add: model_defs)
  have c: "set_selector_flags (initial_options terminal ?inp) = [''--exec'', ''--storybook-url'']"
    by (simp add: set_selector_flags_def initial_options_def input_with_def token_only_def Let_def)
  from singular_options [OF a b] show ?thesis by (simp add: c)
qed

text \<open>The claim as first stated, that with at most one of the five options set the
  error is never raised, fails when \<open>only\<close> and \<open>onlyChanged\<close> are both set: line
  128 throws the same error.\<close>

theorem only_and_onlyChanged_raise_the_same_error:
  "getOptions example_deps terminal
     (input_with (token_only\<lparr>flag_only := Some ''Pages/*'', flag_onlyChanged := Some []\<rparr>) []) =
     Inl (InvalidSingularOptions [''--only'', ''--only-changed'']) \<and>
   set_selector_flags (initial_options terminal
     (input_with (token_only\<lparr>flag_only := Some ''Pages/*'', flag_onlyChanged := Some []\<rparr>) [])) = []"
  by (simp add: model_defs word_or_star_def set_selector_flags_def Let_def)

section \<open>The run mode and the URL of a result\<close>

lemma endsWith_append: "endsWith (a @ b) b"
  by (simp add: endsWith_def)

lemma endsWith_decompose: "endsWith s p \<Longrightarrow> \<exists>a. s = a @ p"
  unfolding endsWith_def by (metis append_take_drop_id)

lemma endsWith_withSuffix: "endsWith (withSuffix p) suffix"
  by (simp add: withSuffix_def endsWith_append)

lemma escape_pathname_append: "escape_pathname (a @ b) = escape_pathname a @ escape_pathname b"
  by (simp add: escape_pathname_def)

lemma escape_pathname_suffix: "escape_pathname suffix = suffix"
  by (simp add: escape_pathname_def suffix_def)

lemma format_endsWith:
  assumes "pathname u = Some q" and "endsWith q suffix" and "search u = []" and "hash u = []"
  shows "endsWith (format u) suffix"
proof -
  from endsWith_decompose [OF assms(2)] obtain a where q: "q = a @ suffix" ..
  have ne: "suffix \<noteq> []" by (simp add: suffix_def)
  let ?p = "escape_pathname a @ suffix"
  have "format u = (protocol u @ (if slashes u then ''//'' else []) @ host u @
                    (if slashes u \<and> hd ?p \<noteq> CHR ''/'' then [CHR ''/''] else []) @ escape_pathname a) @ suffix"
    using assms(1,3,4) ne
    by (simp add: format_def q escape_pathname_append escape_pathname_suffix Let_def)
  then show ?thesis
    using endsWith_append by metis
qed

lemma validation_None_single:
  "validation d inp opts = None \<Longrightarrow> length (set_selector_flags opts) \<le> 1"
proof -
  assume "validation d inp opts = None"
  then have "\<not> 1 < length (foundSingularOpts opts)"
    by (simp add: validation_def split: if_splits)
  then show ?thesis by (simp add: length_found)
qed

lemma buildStorybook_Inr:
  assumes "buildStorybook inp opts = Inr r"
  shows "(truthy_str (storybookBuildDir opts) \<and> r = opts\<lparr>noStart := True, useTunnel := Some False\<rparr>) \<or>
         (\<not> truthy_str (storybookBuildDir opts) \<and>
          (\<exists>b. b \<noteq> [] \<and> r = opts\<lparr>noStart := True, useTunnel := Some False, buildScriptName := Some b\<rparr>))"
proof (cases "truthy_str (storybookBuildDir opts)")
  case True
  with assms have "opts\<lparr>noStart := True, useTunnel := Some False\<rparr> = r"
    by (simp add: buildStorybook_def)
  with True show ?thesis by blast
next
  case False
  show ?thesis
  proof (cases "scripts (packageJson inp)")
    case None
    with False assms show ?thesis
      by (simp add: buildStorybook_def split: option.splits)
  next
    case (Some scr)
    define b where "b = (case buildScriptName opts of Some b \<Rightarrow> b | None \<Rightarrow> inferBuildScriptName scr)"
    from Some False assms
    have "b \<noteq> [] \<and> opts\<lparr>noStart := True, useTunnel := Some False, buildScriptName := Some b\<rparr> = r"
      by (simp add: buildStorybook_def b_def Let_def split: if_splits)
    with False show ?thesis by blast
  qed
qed

text \<open>
  C1, as amended. Whenever \<^verbatim>\<open>getOptions\<close> returns, at most one of the five run-mode
  options was set in \<^verbatim>\<open>options\<close>, and the object returned is of one of two kinds.
  A build result has \<open>useTunnel\<close> false, \<open>noStart\<close> true, exactly one of the five
  options set, which is the static build directory or the build-script name, and no
  \<open>url\<close>. A tunnel result has \<open>useTunnel\<close> true and a \<open>url\<close>, which is the
  external URL if one was given and else a URL \<open>http://localhost:port\<close> or
  \<open>https://localhost:port\<close>, parsed, given a path name that ends in \<open>iframe.html\<close>,
  and formatted; the \<open>url\<close> itself ends in \<open>iframe.html\<close> when the URL has no query
  and no fragment.
\<close>

theorem resolved_run_mode:
  assumes "getOptions d pr inp = Inr r"
  shows "length (set_selector_flags (initial_options pr inp)) \<le> 1 \<and>
         ((useTunnel r = Some False \<and> noStart r \<and> url r = None \<and>
           (set_selector_flags r = [''--storybook-build-dir''] \<or>
            set_selector_flags r = [''--build-script-name'']))
          \<or>
          (useTunnel r = Some True \<and>
           (\<exists>h port' s u p.
              s = (if truthy_str (flag_storybookUrl (flags inp))
                   then or_empty (flag_storybookUrl (flags inp))
                   else localhostUrl h port') \<and>
              url_parse d s = Some u \<and> pathname u = Some p \<and>
              url r = Some (format (u\<lparr>pathname := Some (withSuffix p)\<rparr>)) \<and>
              endsWith (withSuffix p) ''iframe.html'' \<and>
              (search u = [] \<and> hash u = [] \<longrightarrow>
                 endsWith (format (u\<lparr>pathname := Some (withSuffix p)\<rparr>)) ''iframe.html''))))"
proof -
  let ?o = "initial_options pr inp"
  have one: "length (set_selector_flags ?o) \<le> 1"
    using getOptions_Inr(1) [OF assms] by (rule validation_None_single)
  have u0: "url ?o = None" and su: "storybookUrl ?o = flag_storybookUrl (flags inp)"
    by (simp_all add: initial_options_def Let_def)
  show ?thesis
  proof (cases "buildMode ?o")
    case True
    then have m: "\<not> truthy_flagval (scriptName ?o)" "\<not> truthy_str (exec ?o)" "\<not> truthy_str (storybookUrl ?o)"
      by (simp_all add: buildMode_def)
    from buildStorybook_Inr [OF getOptions_Inr(2) [OF assms True]]
    have "useTunnel r = Some False \<and> noStart r \<and> url r = None \<and>
           (set_selector_flags r = [''--storybook-build-dir''] \<or>
            set_selector_flags r = [''--build-script-name''])"
    proof (elim disjE conjE exE)
      assume d: "truthy_str (storybookBuildDir ?o)" and r: "r = ?o\<lparr>noStart := True, useTunnel := Some False\<rparr>"
      from one d m have "\<not> truthy_str (buildScriptName ?o)"
        by (simp add: set_selector_flags_def split: if_splits)
      with d m show ?thesis
        by (simp add: r u0 set_selector_flags_def)
    next
      fix b
      assume d: "\<not> truthy_str (storybookBuildDir ?o)" and b: "b \<noteq> []"
        and r: "r = ?o\<lparr>noStart := True, useTunnel := Some False, buildScriptName := Some b\<rparr>"
      from d b m show ?thesis
        by (simp add: r u0 set_selector_flags_def)
    qed
    with one show ?thesis by blast
  next
    case False
    from startStorybook_shape [OF getOptions_Inr(3) [OF assms False]]
    obtain h sn s u p where s: "if truthy_str (storybookUrl ?o) then s = or_empty (storybookUrl ?o)
            else \<exists>port'. s = localhostUrl h port'"
      and u: "url_parse d s = Some u" "pathname u = Some p"
      and r: "r = ?o\<lparr>noStart := noStart_of ?o, useTunnel := Some True, https := h,
                     url := Some (format (u\<lparr>pathname := Some (withSuffix p)\<rparr>)), scriptName := sn\<rparr>"
      by blast
    from s obtain port' where s': "s = (if truthy_str (flag_storybookUrl (flags inp))
                   then or_empty (flag_storybookUrl (flags inp))
                   else localhostUrl h port')"
      by (auto simp: su split: if_splits)
    let ?u = "u\<lparr>pathname := Some (withSuffix p)\<rparr>"
    have e: "endsWith (withSuffix p) ''iframe.html''"
      using endsWith_withSuffix [of p] by (simp add: suffix_def)
    have f: "search u = [] \<and> hash u = [] \<longrightarrow> endsWith (format ?u) ''iframe.html''"
      using format_endsWith [of ?u "withSuffix p"] endsWith_withSuffix [of p] by (simp add: suffix_def)
    have "useTunnel r = Some True \<and> url r = Some (format ?u)"
      by (simp add: r)
    with e f s' u have "useTunnel r = Some True \<and>
           (\<exists>h port' s u p.
              s = (if truthy_str (flag_storybookUrl (flags inp))
                   then or_empty (flag_storybookUrl (flags inp))
                   else localhostUrl h port') \<and>
              url_parse d s = Some u \<and> pathname u = Some p \<and>
              url r = Some (format (u\<lparr>pathname := Some (withSuffix p)\<rparr>)) \<and>
              endsWith (withSuffix p) ''iframe.html'' \<and>
              (search u = [] \<and> hash u = [] \<longrightarrow>
                 endsWith (format (u\<lparr>pathname := Some (withSuffix p)\<rparr>)) ''iframe.html''))"
      by blast
    with one show ?thesis by blast
  qed
qed

theorem resolved_run_mode_witness:
  "\<exists>r u p. getOptions example_deps terminal
      (input_with (token_only\<lparr>flag_storybookUrl := Some ''http://example.com/sb''\<rparr>) []) = Inr r \<and>
     useTunnel r = Some True \<and>
     url r = Some (format (u\<lparr>pathname := Some (withSuffix p)\<rparr>)) \<and>
     endsWith (withSuffix p) ''iframe.html''"
proof -
  let ?g = "getOptions example_deps terminal
      (input_with (token_only\<lparr>flag_storybookUrl := Some ''http://example.com/sb''\<rparr>) [])"
  have t: "map_sum id useTunnel ?g = Inr (Some True)"
    by (simp add: model_defs)
  then obtain r where r: "?g = Inr r"
    by (cases ?g) simp_all
  with t have "useTunnel r = Some True" by simp
  with resolved_run_mode [OF r] r show ?thesis by auto
qed

text \<open>The claim as first stated fails for a static build directory: the object
  returned at line 163 has no \<open>url\<close>. It also fails for \<^verbatim>\<open>--do-not-start\<close> with a
  port: the result has none of the five options set.\<close>

theorem build_result_has_no_url:
  "map_sum id url (getOptions example_deps terminal
      (input_with (token_only\<lparr>flag_storybookBuildDir := Some (Multiple [''storybook-static''])\<rparr>) [])) =
     Inr None \<and>
   map_sum id set_selector_flags (getOptions example_deps terminal
      (input_with (token_only\<lparr>flag_doNotStart := Some True, flag_storybookPort := Some ''6006''\<rparr>) [])) =
     Inr []"
  by (simp add: model_defs set_selector_flags_def)

section \<open>An external URL\<close>

lemma storybookUrl_not_buildMode:
  "truthy_str (flag_storybookUrl (flags inp)) \<Longrightarrow> \<not> buildMode (initial_options pr inp)"
  by (simp add: buildMode_def initial_options_def Let_def)

lemma initial_options_url_fields:
  "storybookUrl (initial_options pr inp) = flag_storybookUrl (flags inp) \<and>
   url (initial_options pr inp) = None \<and> useTunnel (initial_options pr inp) = None"
  by (simp add: initial_options_def Let_def)

text \<open>
  C2, as amended. Take an input whose \<open>storybookUrl\<close> flag is
  \<^verbatim>\<open>http://example.com/sb\<close>, which \<^verbatim>\<open>url.parse\<close> reads as the host
  \<open>example.com\<close> and the path \<open>/sb\<close>. If the input passes the checks of lines 83 to
  158 and has no \<open>onlyChanged\<close> flag, \<^verbatim>\<open>getOptions\<close> succeeds: it returns the
  options with \<open>noStart = true\<close>, \<open>useTunnel = true\<close> and
  \<open>url = http://example.com/sb/iframe.html\<close>. If a check fails, it throws the error
  of the first one that fails; and if the checks pass and \<open>onlyChanged\<close> is set, it
  throws \<^verbatim>\<open>invalidOnlyChanged\<close>. More generally, whenever the \<open>storybookUrl\<close> flag
  is given (a non-empty string) and \<^verbatim>\<open>getOptions\<close> returns, \<open>noStart\<close> is true in
  the result.
\<close>

theorem external_url:
  "(flag_storybookUrl (flags inp) = Some ''http://example.com/sb'' \<and>
    url_parse d ''http://example.com/sb'' =
      Some \<lparr>protocol = ''http:'', slashes = True, host = ''example.com'',
            pathname = Some ''/sb'', search = [], hash = []\<rparr> \<and>
    validation d inp (initial_options pr inp) = None \<and>
    flag_onlyChanged (flags inp) = None \<longrightarrow>
      getOptions d pr inp =
        Inr ((initial_options pr inp)
               \<lparr>noStart := True, useTunnel := Some True,
                https := https_of_flags (initial_options pr inp),
                url := Some ''http://example.com/sb/iframe.html''\<rparr>)) \<and>
   (\<forall>e. validation d inp (initial_options pr inp) = Some e \<longrightarrow> getOptions d pr inp = Inl e) \<and>
   (truthy_str (flag_storybookUrl (flags inp)) \<and>
    validation d inp (initial_options pr inp) = None \<and>
    flag_onlyChanged (flags inp) \<noteq> None \<longrightarrow>
      getOptions d pr inp = Inl InvalidOnlyChanged) \<and>
   (\<forall>r. truthy_str (flag_storybookUrl (flags inp)) \<and> getOptions d pr inp = Inr r \<longrightarrow>
      noStart r \<and> useTunnel r = Some True)"
proof -
  let ?o = "initial_options pr inp"
  have oc: "onlyChanged ?o = trueIfSet (flag_onlyChanged (flags inp))"
    by (simp add: initial_options_def Let_def)
  have start: "startStorybook d pr inp ?o =
            (if truthy_flagval (onlyChanged ?o) then Inl InvalidOnlyChanged
             else finish d ?o True (https_of_flags ?o) (scriptName ?o)
                    (or_empty (flag_storybookUrl (flags inp))))"
    if t: "truthy_str (flag_storybookUrl (flags inp))"
    using t initial_options_url_fields [of pr inp]
    by (simp add: startStorybook_def noStart_of_def)
  have 1: "getOptions d pr inp =
        Inr (?o\<lparr>noStart := True, useTunnel := Some True, https := https_of_flags ?o,
                 url := Some ''http://example.com/sb/iframe.html''\<rparr>)"
    if f: "flag_storybookUrl (flags inp) = Some ''http://example.com/sb''"
      and p: "url_parse d ''http://example.com/sb'' =
      Some \<lparr>protocol = ''http:'', slashes = True, host = ''example.com'',
            pathname = Some ''/sb'', search = [], hash = []\<rparr>"
      and v: "validation d inp ?o = None"
      and c: "flag_onlyChanged (flags inp) = None"
  proof -
    from f have t: "truthy_str (flag_storybookUrl (flags inp))" by simp
    have fin: "finish d ?o True (https_of_flags ?o) (scriptName ?o) ''http://example.com/sb'' =
        Inr (?o\<lparr>noStart := True, useTunnel := Some True, https := https_of_flags ?o,
                          url := Some ''http://example.com/sb/iframe.html''\<rparr>)"
      by (simp add: finish_def p withSuffix_def suffix_def endsWith_def format_def escape_pathname_def)
    from start [OF t] c have "startStorybook d pr inp ?o =
        finish d ?o True (https_of_flags ?o) (scriptName ?o) ''http://example.com/sb''"
      by (simp add: oc f)
    with v storybookUrl_not_buildMode [OF t] fin show ?thesis
      by (simp add: getOptions_valid)
  qed
  have 2: "\<forall>e. validation d inp ?o = Some e \<longrightarrow> getOptions d pr inp = Inl e"
    by (simp add: getOptions_invalid)
  have 3: "getOptions d pr inp = Inl InvalidOnlyChanged"
    if t: "truthy_str (flag_storybookUrl (flags inp))"
      and v: "validation d inp ?o = None"
      and c: "flag_onlyChanged (flags inp) \<noteq> None"
  proof -
    from c have "truthy_flagval (onlyChanged ?o)"
      by (auto simp: oc)
    with start [OF t] v storybookUrl_not_buildMode [OF t] show ?thesis
      by (simp add: getOptions_valid)
  qed
  have 4: "noStart r \<and> useTunnel r = Some True"
    if t: "truthy_str (flag_storybookUrl (flags inp))" and g: "getOptions d pr inp = Inr r" for r
  proof -
    from t have n: "noStart_of ?o"
      using initial_options_url_fields [of pr inp] by (simp add: noStart_of_def)
    from startStorybook_shape [OF getOptions_Inr(3) [OF g storybookUrl_not_buildMode [OF t]]]
    obtain h sn u where "r = ?o\<lparr>noStart := noStart_of ?o, useTunnel := Some True, https := h,
                     url := u, scriptName := sn\<rparr>"
      by blast
    with n show ?thesis by simp
  qed
  from 1 2 3 4 show ?thesis by blast
qed

theorem external_url_witness:
  "\<exists>r. getOptions example_deps terminal
      (input_with (token_only\<lparr>flag_storybookUrl := Some ''http://example.com/sb''\<rparr>) []) = Inr r \<and>
     noStart r \<and> useTunnel r = Some True \<and> url r = Some ''http://example.com/sb/iframe.html''"
proof -
  let ?inp = "input_with (token_only\<lparr>flag_storybookUrl := Some ''http://example.com/sb''\<rparr>) []"
  have f: "flag_storybookUrl (flags ?inp) = Some ''http://example.com/sb''"
    by (simp add: input_with_def)
  have p: "url_parse example_deps ''http://example.com/sb'' =
      Some \<lparr>protocol = ''http:'', slashes = True, host = ''example.com'',
            pathname = Some ''/sb'', search = [], hash = []\<rparr>"
    by (simp add: example_deps_def parse_http_url_def startsWith_def)
  have v: "validation example_deps ?inp (initial_options terminal ?inp) = None"
    by (simp add: model_defs)
  have c: "flag_onlyChanged (flags ?inp) = None"
    by (simp add: input_with_def token_only_def)
  from external_url [of ?inp example_deps terminal] f p v c
  show ?thesis by simp
qed

text \<open>The claim as first stated, that every input with this URL flag and no
  conflicting mode flag succeeds, fails on inputs that set no other run-mode flag:
  without a project token line 88 throws, with \<^verbatim>\<open>--exit-once-uploaded\<close> line 144
  throws, and with \<^verbatim>\<open>--only-changed\<close> line 180 throws.\<close>

theorem external_url_can_fail_validation:
  "getOptions example_deps terminal
     (input_with (token_only\<lparr>flag_projectToken := None,
                              flag_storybookUrl := Some ''http://example.com/sb''\<rparr>) []) =
     Inl MissingProjectToken \<and>
   getOptions example_deps terminal
     (input_with (token_only\<lparr>flag_storybookUrl := Some ''http://example.com/sb'',
                              flag_exitOnceUploaded := Some []\<rparr>) []) =
     Inl InvalidExitOnceUploaded \<and>
   getOptions example_deps terminal
     (input_with (token_only\<lparr>flag_storybookUrl := Some ''http://example.com/sb'',
                              flag_onlyChanged := Some []\<rparr>) []) =
     Inl InvalidOnlyChanged"
  by (simp add: model_defs)

section \<open>The build script\<close>

lemma initial_options_mode_fields:
  "scriptName (initial_options pr inp) = trueIfSet (flag_scriptName (flags inp)) \<and>
   exec (initial_options pr inp) = flag_exec (flags inp) \<and>
   noStart (initial_options pr inp) = truthy_bool (flag_doNotStart (flags inp)) \<and>
   port (initial_options pr inp) = flag_storybookPort (flags inp) \<and>
   storybookBuildDir (initial_options pr inp) = takeLast (flag_storybookBuildDir (flags inp)) \<and>
   buildScriptName (initial_options pr inp) = flag_buildScriptName (flags inp) \<and>
   onlyChanged (initial_options pr inp) = trueIfSet (flag_onlyChanged (flags inp)) \<and>
   https (initial_options pr inp) = HttpsFlag (flag_storybookHttps (flags inp))"
  by (simp add: initial_options_def Let_def)

lemma find_distinct_map_of:
  assumes "find P scr = Some (k, v)" and "distinct (map fst scr)"
  shows "map_of scr k = Some v \<and> P (k, v)"
proof -
  from assms(1) have "(k, v) \<in> set scr \<and> P (k, v)"
    by (auto simp: find_Some_iff)
  with assms(2) show ?thesis by simp
qed

lemma script_at_own: "map_of scr k = Some v \<Longrightarrow> script_at scr k = Command v"
  by (simp add: script_at_def)

lemma truthy_script_build_storybook:
  "truthy_script (script_at scr ''build-storybook'') = truthy_str (map_of scr ''build-storybook'')"
  by (cases "map_of scr ''build-storybook''")
     (simp_all add: script_at_def object_prototype_members_def)

lemma startsWith_nonempty: "p \<noteq> [] \<Longrightarrow> startsWith v p \<Longrightarrow> v \<noteq> []"
  by (auto simp: startsWith_def)

text \<open>
  C6, as amended. Take an input that passes the checks of lines 83 to 158, with no
  server-script name, no exec command, no \<^verbatim>\<open>doNotStart\<close>, no external URL, no port,
  no static build directory and no build-script flag, and whose manifest has a script
  table. If the table has a non-empty command under \<open>build-storybook\<close>,
  \<^verbatim>\<open>getOptions\<close> returns a build result with that build-script name. Otherwise, if
  the first entry of the table whose command starts with \<open>build-storybook\<close> has a
  non-empty name, it returns a build result with this name. Otherwise it throws
  \<^verbatim>\<open>missingBuildScriptName\<close> for the name \<open>build-storybook\<close>.
\<close>

theorem build_script_resolution:
  assumes "validation d inp (initial_options pr inp) = None"
    and "flag_scriptName (flags inp) = None"
    and "\<not> truthy_str (flag_exec (flags inp))"
    and "\<not> truthy_bool (flag_doNotStart (flags inp))"
    and "\<not> truthy_str (flag_storybookUrl (flags inp))"
    and "\<not> truthy_str (flag_storybookPort (flags inp))"
    and "\<not> truthy_str (takeLast (flag_storybookBuildDir (flags inp)))"
    and "flag_buildScriptName (flags inp) = None"
    and "scripts (packageJson inp) = Some scr"
    and "distinct (map fst scr)"
  shows "(truthy_str (map_of scr ''build-storybook'') \<longrightarrow>
            getOptions d pr inp =
              Inr ((initial_options pr inp)
                     \<lparr>noStart := True, useTunnel := Some False,
                      buildScriptName := Some ''build-storybook''\<rparr>)) \<and>
         (\<not> truthy_str (map_of scr ''build-storybook'') \<longrightarrow>
            (\<forall>k v. find (\<lambda>(k, v). startsWith v ''build-storybook'') scr = Some (k, v) \<and> k \<noteq> [] \<longrightarrow>
               getOptions d pr inp =
                 Inr ((initial_options pr inp)
                        \<lparr>noStart := True, useTunnel := Some False, buildScriptName := Some k\<rparr>)) \<and>
            (find (\<lambda>(k, v). startsWith v ''build-storybook'') scr = None \<or>
             (\<exists>v. find (\<lambda>(k, v). startsWith v ''build-storybook'') scr = Some ([], v)) \<longrightarrow>
               getOptions d pr inp = Inl (MissingBuildScriptName ''build-storybook'')))"
proof -
  let ?o = "initial_options pr inp"
  let ?P = "\<lambda>(k, v). startsWith v ''build-storybook''"
  note f = initial_options_mode_fields [of pr inp]
  have su: "storybookUrl ?o = flag_storybookUrl (flags inp)"
    by (simp add: initial_options_def Let_def)
  have bm: "buildMode ?o"
    using assms(2-6) f su by (simp add: buildMode_def noStart_of_def)
  have g: "getOptions d pr inp = buildStorybook inp ?o"
    using assms(1) bm by (simp add: getOptions_valid)
  have b: "buildStorybook inp ?o =
      (let b = inferBuildScriptName scr
       in if b \<noteq> [] \<and> truthy_script (script_at scr b)
          then Inr (?o\<lparr>noStart := True, useTunnel := Some False, buildScriptName := Some b\<rparr>)
          else Inl (MissingBuildScriptName b))"
    using assms(7-9) f by (simp add: buildStorybook_def)
  have 1: "getOptions d pr inp =
              Inr (?o\<lparr>noStart := True, useTunnel := Some False, buildScriptName := Some ''build-storybook''\<rparr>)"
    if "truthy_str (map_of scr ''build-storybook'')"
    using that by (simp add: g b inferBuildScriptName_def truthy_script_build_storybook)
  have 2: "getOptions d pr inp =
             Inr (?o\<lparr>noStart := True, useTunnel := Some False, buildScriptName := Some k\<rparr>)"
    if n: "\<not> truthy_str (map_of scr ''build-storybook'')" and fd: "find ?P scr = Some (k, v)" and k: "k \<noteq> []"
    for k v
  proof -
    from find_distinct_map_of [OF fd assms(10)] have m: "map_of scr k = Some v" and "startsWith v ''build-storybook''"
      by simp_all
    then have "v \<noteq> []" using startsWith_nonempty [of "''build-storybook''" v] by simp
    with script_at_own [OF m] n fd k show ?thesis
      by (simp add: g b inferBuildScriptName_def truthy_script_build_storybook)
  qed
  have 3: "getOptions d pr inp = Inl (MissingBuildScriptName ''build-storybook'')"
    if n: "\<not> truthy_str (map_of scr ''build-storybook'')"
      and fd: "find ?P scr = None \<or> (\<exists>v. find ?P scr = Some ([], v))"
    using n fd by (auto simp: g b inferBuildScriptName_def truthy_script_build_storybook)
  from 1 2 3 show ?thesis by blast
qed

theorem build_script_resolution_witness:
  "map_sum id buildScriptName (getOptions example_deps terminal
      (input_with token_only [(''build-storybook'', ''build-storybook -o out'')])) =
     Inr (Some ''build-storybook'') \<and>
   getOptions example_deps terminal (input_with token_only [(''test'', ''jest'')]) =
     Inl (MissingBuildScriptName ''build-storybook'')"
proof -
  let ?a = "input_with token_only [(''build-storybook'', ''build-storybook -o out'')]"
  let ?b = "input_with token_only [(''test'', ''jest'')]"
  have va: "validation example_deps ?a (initial_options terminal ?a) = None"
    by (simp add: model_defs)
  have vb: "validation example_deps ?b (initial_options terminal ?b) = None"
    by (simp add: model_defs)
  have a: "getOptions example_deps terminal ?a =
             Inr ((initial_options terminal ?a)
                     \<lparr>noStart := True, useTunnel := Some False,
                      buildScriptName := Some ''build-storybook''\<rparr>)"
    using build_script_resolution [OF va, of "[(''build-storybook'', ''build-storybook -o out'')]"]
    by (simp add: input_with_def token_only_def)
  have b: "getOptions example_deps terminal ?b = Inl (MissingBuildScriptName ''build-storybook'')"
    using build_script_resolution [OF vb, of "[(''test'', ''jest'')]"]
    by (simp add: input_with_def token_only_def startsWith_def)
  from a b show ?thesis by simp
qed

text \<open>The claim as first stated does not exclude a static build directory, with which
  the result has no build-script name; and a table whose \<open>build-storybook\<close> command is
  empty counts as one without that key.\<close>

theorem build_dir_or_empty_command:
  "map_sum id buildScriptName (getOptions example_deps terminal
      (input_with (token_only\<lparr>flag_storybookBuildDir := Some (Multiple [''storybook-static''])\<rparr>)
         [(''build-storybook'', ''build-storybook -o out'')])) = Inr None \<and>
   getOptions example_deps terminal (input_with token_only [(''build-storybook'', [])]) =
     Inl (MissingBuildScriptName ''build-storybook'')"
  by (simp add: model_defs)

section \<open>The port of the start script\<close>

lemma spec_reads_port:
  "getStorybookConfiguration_spec ''start-storybook -p 9009'' ''-p'' (Some ''--port'') = Some ''9009'' \<and>
   getStorybookConfiguration_spec ''start-storybook -p 9009'' ''--https'' None = None"
  by (simp add: getStorybookConfiguration_spec_def)

text \<open>
  C7, as amended. Take an input that passes the checks of lines 83 to 158, whose
  manifest has the script \<open>storybook\<close> with the command
  \<^verbatim>\<open>start-storybook -p 9009\<close>, with the server-script flag given without a name or
  with the name \<open>storybook\<close> (or, without this flag, with \<^verbatim>\<open>doNotStart\<close>), and with
  no exec command, no external URL, no port, no https flag and no \<open>onlyChanged\<close>.
  Then the port \<open>9009\<close> is read from the command and \<^verbatim>\<open>getOptions\<close> returns a
  tunnel result with the script name \<open>storybook\<close> and the URL
  \<^verbatim>\<open>http://localhost:9009/iframe.html\<close>. \<^verbatim>\<open>getStorybookConfiguration\<close> is the
  function modelled from the spec, and \<^verbatim>\<open>url.parse\<close> reads
  \<^verbatim>\<open>http://localhost:9009\<close> as the host \<open>localhost:9009\<close> and the path \<open>/\<close>.
\<close>

theorem start_script_port:
  assumes "validation d inp (initial_options pr inp) = None"
    and "flag_scriptName (flags inp) = Some [] \<or> flag_scriptName (flags inp) = Some ''storybook'' \<or>
         (flag_scriptName (flags inp) = None \<and> truthy_bool (flag_doNotStart (flags inp)))"
    and "\<not> truthy_str (flag_exec (flags inp))"
    and "\<not> truthy_str (flag_storybookUrl (flags inp))"
    and "\<not> truthy_str (flag_storybookPort (flags inp))"
    and "\<not> truthy_bool (flag_storybookHttps (flags inp))"
    and "flag_onlyChanged (flags inp) = None"
    and "scripts (packageJson inp) = Some scr"
    and "map_of scr ''storybook'' = Some ''start-storybook -p 9009''"
    and "getStorybookConfiguration d = getStorybookConfiguration_spec"
    and "url_parse d ''http://localhost:9009'' =
           Some \<lparr>protocol = ''http:'', slashes = True, host = ''localhost:9009'',
                 pathname = Some ''/'', search = [], hash = []\<rparr>"
  shows "lookupScript d pr inp (initial_options pr inp) = Inr (''storybook'', HttpsScript None, ''9009'') \<and>
         getOptions d pr inp =
           Inr ((initial_options pr inp)
                  \<lparr>noStart := truthy_bool (flag_doNotStart (flags inp)),
                   useTunnel := Some True,
                   https := HttpsScript None,
                   url := Some ''http://localhost:9009/iframe.html'',
                   scriptName := Some (FlagStr ''storybook'')\<rparr>)"
proof -
  let ?o = "initial_options pr inp"
  note f = initial_options_mode_fields [of pr inp]
  have su: "storybookUrl ?o = flag_storybookUrl (flags inp)"
    by (simp add: initial_options_def Let_def)
  have nm: "(case scriptName ?o of Some (FlagStr s) \<Rightarrow> s | _ \<Rightarrow> ''storybook'') = ''storybook''"
    using assms(2) f by auto
  have ns: "noStart_of ?o = truthy_bool (flag_doNotStart (flags inp))"
    using assms(4) f su by (simp add: noStart_of_def)
  have bm: "\<not> buildMode ?o"
    using assms(2) f ns by (auto simp: buildMode_def)
  have hf: "\<not> truthy_https (https_of_flags ?o)"
    using assms(6) f by (simp add: https_of_flags_def)
  have po: "\<not> truthy_str (port ?o)"
    using assms(5) f by simp
  have l: "lookupScript d pr inp ?o = Inr (''storybook'', HttpsScript None, ''9009'')"
    using assms(8) script_at_own [OF assms(9)] hf po spec_reads_port
    by (simp add: lookupScript_def readScript_def readHttps_def nm assms(10) Let_def)
  have fin: "finish d ?o (noStart_of ?o) (HttpsScript None) (Some (FlagStr ''storybook''))
               ''http://localhost:9009'' =
        Inr (?o\<lparr>noStart := truthy_bool (flag_doNotStart (flags inp)), useTunnel := Some True,
                 https := HttpsScript None,
                 url := Some ''http://localhost:9009/iframe.html'',
                 scriptName := Some (FlagStr ''storybook'')\<rparr>)"
    by (simp add: finish_def assms(11) ns withSuffix_def suffix_def endsWith_def format_def
        escape_pathname_def)
  have "startStorybook d pr inp ?o =
          finish d ?o (noStart_of ?o) (HttpsScript None) (Some (FlagStr ''storybook''))
               ''http://localhost:9009''"
    using assms(3,4,5,7) f su
    by (simp add: startStorybook_def l localhostUrl_def)
  with assms(1) bm fin have "getOptions d pr inp =
        Inr (?o\<lparr>noStart := truthy_bool (flag_doNotStart (flags inp)), useTunnel := Some True,
                 https := HttpsScript None,
                 url := Some ''http://localhost:9009/iframe.html'',
                 scriptName := Some (FlagStr ''storybook'')\<rparr>)"
    by (simp add: getOptions_valid)
  with l show ?thesis by simp
qed

theorem start_script_port_witness:
  "map_sum id url (getOptions example_deps terminal
      (input_with (token_only\<lparr>flag_scriptName := Some []\<rparr>)
         [(''storybook'', ''start-storybook -p 9009'')])) =
     Inr (Some ''http://localhost:9009/iframe.html'')"
proof -
  let ?inp = "input_with (token_only\<lparr>flag_scriptName := Some []\<rparr>)
         [(''storybook'', ''start-storybook -p 9009'')]"
  have v: "validation example_deps ?inp (initial_options terminal ?inp) = None"
    by (simp add: model_defs)
  have p: "url_parse example_deps ''http://localhost:9009'' =
           Some \<lparr>protocol = ''http:'', slashes = True, host = ''localhost:9009'',
                 pathname = Some ''/'', search = [], hash = []\<rparr>"
    by (simp add: example_deps_def parse_http_url_def startsWith_def)
  have g: "getStorybookConfiguration example_deps = getStorybookConfiguration_spec"
    by (simp add: example_deps_def)
  have "getOptions example_deps terminal ?inp =
           Inr ((initial_options terminal ?inp)
                  \<lparr>noStart := truthy_bool (flag_doNotStart (flags ?inp)),
                   useTunnel := Some True,
                   https := HttpsScript None,
                   url := Some ''http://localhost:9009/iframe.html'',
                   scriptName := Some (FlagStr ''storybook'')\<rparr>)"
    using start_script_port [OF v _ _ _ _ _ _ _ _ g p, of "[(''storybook'', ''start-storybook -p 9009'')]"]
    by (simp add: input_with_def token_only_def)
  then show ?thesis by simp
qed

text \<open>The claim as first stated, with no run-mode flag set at all, fails: line 161
  then chooses to build, and this manifest has no build script.\<close>

theorem no_mode_flag_builds:
  "getOptions example_deps terminal
     (input_with token_only [(''storybook'', ''start-storybook -p 9009'')]) =
     Inl (MissingBuildScriptName ''build-storybook'')"
  by (simp add: model_defs)

section \<open>The branch-name flag\<close>

lemma split_from_no_sep:
  "c \<notin> set s \<Longrightarrow> split_from [c] cur s = [cur @ s]"
  by (induction s arbitrary: cur) auto

lemma split_from_last_sep:
  "c \<notin> set b \<Longrightarrow> split_from [c] cur (a @ c # b) = split_from [c] cur a @ [b]"
  by (induction a arbitrary: cur) (auto simp: split_from_no_sep)

lemma split_from_nonempty: "split_from sep cur s \<noteq> []"
  by (induction sep cur s rule: split_from.induct) auto

lemma nth_opt_rev_last: "xs \<noteq> [] \<Longrightarrow> nth_opt (rev xs) 0 = Some (last xs)"
  by (induction xs rule: rev_induct) auto

lemma split_colon_last:
  "CHR '':'' \<notin> set b \<Longrightarrow> split '':'' (a @ CHR '':'' # b) = split '':'' a @ [b]"
  by (simp add: split_def split_from_last_sep)

lemma split_colon_none:
  "CHR '':'' \<notin> set s \<Longrightarrow> split '':'' s = [s]"
  by (simp add: split_def split_from_no_sep)

lemma initial_options_branch:
  "branchName (initial_options pr inp) = nth_opt (rev (split '':'' (or_empty (flag_branchName (flags inp))))) 0 \<and>
   ownerName (initial_options pr inp) = nth_opt (rev (split '':'' (or_empty (flag_branchName (flags inp))))) 1"
  by (simp add: initial_options_def Let_def)

text \<open>
  C5, as amended. For a \<open>branchName\<close> flag of the form \<open>owner:branch\<close>, where
  \<open>branch\<close> has no colon, the value is split at every colon and the pieces are
  reversed: \<open>branchName\<close> is the part after the last colon, and \<open>ownerName\<close> is the
  piece just before it, that is the part of \<open>owner\<close> after its own last colon. It
  is all of \<open>owner\<close> only when the value has a single colon. Every object
  \<^verbatim>\<open>getOptions\<close> returns carries these two values.
\<close>

theorem branchName_split:
  assumes "flag_branchName (flags inp) = Some (owner @ '':'' @ b)" and "CHR '':'' \<notin> set b"
  shows "branchName (initial_options pr inp) = Some b \<and>
         ownerName (initial_options pr inp) = Some (last (split '':'' owner)) \<and>
         (CHR '':'' \<notin> set owner \<longrightarrow> ownerName (initial_options pr inp) = Some owner) \<and>
         (\<forall>pre seg. owner = pre @ '':'' @ seg \<and> CHR '':'' \<notin> set seg \<longrightarrow>
            ownerName (initial_options pr inp) = Some seg) \<and>
         (\<forall>r. getOptions d pr inp = Inr r \<longrightarrow>
            branchName r = Some b \<and> ownerName r = Some (last (split '':'' owner)))"
proof -
  have ne: "split '':'' owner \<noteq> []"
    by (simp add: split_def split_from_nonempty)
  have rv: "rev (split '':'' (or_empty (flag_branchName (flags inp)))) = b # rev (split '':'' owner)"
    using assms by (simp add: split_colon_last)
  have b: "branchName (initial_options pr inp) = Some b"
    using initial_options_branch [of pr inp] by (simp add: rv)
  have o: "ownerName (initial_options pr inp) = Some (last (split '':'' owner))"
    using initial_options_branch [of pr inp] ne by (simp add: rv nth_opt_rev_last)
  have one: "CHR '':'' \<notin> set owner \<longrightarrow> ownerName (initial_options pr inp) = Some owner"
    by (simp add: o split_colon_none)
  have more: "\<forall>pre seg. owner = pre @ '':'' @ seg \<and> CHR '':'' \<notin> set seg \<longrightarrow>
            ownerName (initial_options pr inp) = Some seg"
    by (auto simp: o split_colon_last)
  have res: "\<forall>r. getOptions d pr inp = Inr r \<longrightarrow>
            branchName r = Some b \<and> ownerName r = Some (last (split '':'' owner))"
    using getOptions_keeps b o by metis
  from b o one more res show ?thesis by blast
qed

theorem branchName_split_witness:
  "branchName (initial_options terminal
      (input_with (token_only\<lparr>flag_branchName := Some ''chromaui:main''\<rparr>) [])) = Some ''main'' \<and>
   ownerName (initial_options terminal
      (input_with (token_only\<lparr>flag_branchName := Some ''chromaui:main''\<rparr>) [])) = Some ''chromaui''"
proof -
  have h1: "flag_branchName (flags (input_with (token_only\<lparr>flag_branchName := Some ''chromaui:main''\<rparr>) []))
              = Some (''chromaui'' @ '':'' @ ''main'')"
    by (simp add: input_with_def)
  have h2: "CHR '':'' \<notin> set ''main''" by simp
  from branchName_split [OF h1 h2, of terminal example_deps] show ?thesis
    by (simp add: split_def)
qed

text \<open>The claim as first stated, with \<open>ownerName\<close> everything before the last
  colon, fails on \<open>a:b:c\<close>: \<open>ownerName\<close> is \<open>b\<close>, not \<open>a:b\<close>.\<close>

theorem ownerName_not_before_last_colon:
  "map_sum id branchName (getOptions example_deps terminal
      (input_with (token_only\<lparr>flag_branchName := Some ''a:b:c''\<rparr>)
         [(''build-storybook'', ''build-storybook'')])) = Inr (Some ''c'') \<and>
   map_sum id ownerName (getOptions example_deps terminal
      (input_with (token_only\<lparr>flag_branchName := Some ''a:b:c''\<rparr>)
         [(''build-storybook'', ''build-storybook'')])) = Inr (Some ''b'')"
  by (simp add: model_defs)

section \<open>The branch of a detached head\<close>

lemma notHead_not_HEAD: "notHead v = Some b \<Longrightarrow> b \<noteq> ''HEAD'' \<and> b \<noteq> []"
  by (cases v) (auto split: if_splits)

lemma notHead_None_iff: "notHead v = None \<longleftrightarrow> v = None \<or> v = Some [] \<or> v = Some ''HEAD''"
  by (cases v) auto

lemma firstNotHead_HEAD: "firstNotHead vs = ''HEAD'' \<longleftrightarrow> (\<forall>v\<in>set vs. notHead v = None)"
  by (induction vs) (auto split: option.splits dest: notHead_not_HEAD)

lemma startsWith_decompose: "startsWith f p \<Longrightarrow> f = p @ drop (length p) f"
  unfolding startsWith_def by (metis append_take_drop_id)

lemma stripOrigin_HEAD:
  "stripOrigin pr ov f = ''HEAD'' \<longleftrightarrow>
     f = ''HEAD'' \<or> (\<not> truthy_str (arg_branchName ov) \<and> \<not> isFromEnvVariable pr \<and> f = ''origin/HEAD'')"
proof (cases "startsWith f ''origin/''")
  case True
  then have "f = ''origin/'' @ drop (length ''origin/'') f"
    by (rule startsWith_decompose)
  then obtain t where f: "f = ''origin/'' @ t" ..
  show ?thesis
    by (simp add: stripOrigin_def startsWith_def f)
next
  case False
  then have "f \<noteq> ''origin/HEAD''"
    by (auto simp: startsWith_def)
  with False show ?thesis
    by (simp add: stripOrigin_def)
qed

text \<open>
  C9, as amended. When the branch is still the placeholder (empty or \<open>HEAD\<close>) after
  the overrides and the provider-specific part, \<^verbatim>\<open>getCommitAndBranch\<close> returns,
  and the branch it returns is the first value that is neither absent, empty nor
  \<open>HEAD\<close> among the PR branch and the branch of the CI service and the variables
  \<open>HEAD\<close>, \<open>GERRIT_BRANCH\<close>, \<open>GITHUB_REF\<close> and \<open>CI_BRANCH\<close>, in this order, or
  \<open>HEAD\<close> when there is none; a leading \<open>origin/\<close> is then removed from it
  (unless a branch-name override was given or the \<open>CHROMATIC_SHA\<close> and
  \<open>CHROMATIC_BRANCH\<close> variables are set). So the branch returned is \<open>HEAD\<close> exactly
  when every value of the chain is absent, empty or \<open>HEAD\<close>, or when the first usable
  one is \<open>origin/HEAD\<close> and the prefix is removed.
\<close>

theorem detached_head_fallback:
  assumes "beforeFallback pr g ov = Inr (c, b, s)" and "notHead (Some b) = None"
  shows "\<exists>r. getCommitAndBranch pr g ci ov = Inr r \<and>
           branch r = stripOrigin pr ov
             (firstNotHead [prBranch ci, ciBranch ci, process_env pr ''HEAD'',
                process_env pr ''GERRIT_BRANCH'', process_env pr ''GITHUB_REF'',
                process_env pr ''CI_BRANCH'']) \<and>
           (branch r = ''HEAD'' \<longleftrightarrow>
              (\<forall>v \<in> set [prBranch ci, ciBranch ci, process_env pr ''HEAD'',
                  process_env pr ''GERRIT_BRANCH'', process_env pr ''GITHUB_REF'',
                  process_env pr ''CI_BRANCH'']. v = None \<or> v = Some [] \<or> v = Some ''HEAD'') \<or>
              (\<not> truthy_str (arg_branchName ov) \<and> \<not> isFromEnvVariable pr \<and>
               firstNotHead [prBranch ci, ciBranch ci, process_env pr ''HEAD'',
                  process_env pr ''GERRIT_BRANCH'', process_env pr ''GITHUB_REF'',
                  process_env pr ''CI_BRANCH''] = ''origin/HEAD''))"
proof -
  let ?chain = "[prBranch ci, ciBranch ci, process_env pr ''HEAD'',
                process_env pr ''GERRIT_BRANCH'', process_env pr ''GITHUB_REF'',
                process_env pr ''CI_BRANCH'']"
  from assms obtain r where r: "getCommitAndBranch pr g ci ov = Inr r"
    and br: "branch r = stripOrigin pr ov (firstNotHead ?chain)"
    by (simp add: getCommitAndBranch_def fallbackChain_def Let_def)
  have "branch r = ''HEAD'' \<longleftrightarrow>
          (\<forall>v \<in> set ?chain. v = None \<or> v = Some [] \<or> v = Some ''HEAD'') \<or>
          (\<not> truthy_str (arg_branchName ov) \<and> \<not> isFromEnvVariable pr \<and>
           firstNotHead ?chain = ''origin/HEAD'')"
    unfolding br stripOrigin_HEAD firstNotHead_HEAD notHead_None_iff ..
  with r br show ?thesis by blast
qed

theorem detached_head_fallback_witness:
  "\<exists>r. getCommitAndBranch terminal (repository ''HEAD'' True) (no_ci\<lparr>ciBranch := Some ''main''\<rparr>)
          no_overrides = Inr r \<and> branch r = ''main''"
proof -
  have h1: "beforeFallback terminal (repository ''HEAD'' True) no_overrides =
              Inr (\<lparr>sha = Some ''0a1b2c'', commitInfo = Some ()\<rparr>, ''HEAD'', None)"
    by (simp add: beforeFallback_def repository_def initialBranch_def no_overrides_def
        providerOverride_def isFromEnvVariable_def terminal_def)
  have h2: "notHead (Some ''HEAD'') = None" by simp
  from detached_head_fallback [OF h1 h2, of "no_ci\<lparr>ciBranch := Some ''main''\<rparr>"]
  obtain r where r: "getCommitAndBranch terminal (repository ''HEAD'' True)
          (no_ci\<lparr>ciBranch := Some ''main''\<rparr>) no_overrides = Inr r"
    and b: "branch r = stripOrigin terminal no_overrides
             (firstNotHead [prBranch (no_ci\<lparr>ciBranch := Some ''main''\<rparr>),
                ciBranch (no_ci\<lparr>ciBranch := Some ''main''\<rparr>), process_env terminal ''HEAD'',
                process_env terminal ''GERRIT_BRANCH'', process_env terminal ''GITHUB_REF'',
                process_env terminal ''CI_BRANCH''])"
    by blast
  from b have "branch r = ''main''"
    by (simp add: no_ci_def terminal_def stripOrigin_def startsWith_def)
  with r show ?thesis by blast
qed

text \<open>The claim as first stated fails when the CI service reports the branch
  \<open>origin/HEAD\<close>: this value is neither absent nor the placeholder, and the branch
  returned is \<open>HEAD\<close>.\<close>

theorem origin_HEAD_resolves_to_HEAD:
  "map_sum id branch
     (getCommitAndBranch terminal (repository ''HEAD'' True) (no_ci\<lparr>ciBranch := Some ''origin/HEAD''\<rparr>)
        no_overrides) = Inr ''HEAD'' \<and>
   notHead (ciBranch (no_ci\<lparr>ciBranch := Some ''origin/HEAD''\<rparr>)) = Some ''origin/HEAD''"
  by (simp add: getCommitAndBranch_def beforeFallback_def repository_def initialBranch_def
      no_overrides_def providerOverride_def isFromEnvVariable_def terminal_def no_ci_def
      fallbackChain_def stripOrigin_def startsWith_def getCommitOr_def)

end
